theory Spec2Isabelle
  imports Complex_Main
begin

section \<open>Python values and exceptions\<close>

text \<open>
  The analyzer (\<^verbatim>\<open>analyze_server.py\<close>) works on untyped JSON dictionaries. A JSON
  value is a \<open>pyval\<close>; a dictionary is an association list read with \<open>map_of\<close>.
  Python's \<^verbatim>\<open>int\<close> and \<^verbatim>\<open>float\<close> are both \<open>PNum\<close>, a real number. Sums,
  products and means are carried as exact reals. Where the code's result depends on how a
  double is rounded, the rounding is in the model: the whale score rounds its two
  operations to doubles (\<open>fl\<close> below), and the two library functions whose result
  depends on the bits of their argument, \<^verbatim>\<open>round\<close> and \<^verbatim>\<open>statistics.stdev\<close>, are
  parameters of the functions that call them. NaN, infinities and overflow are outside the
  model. Every exception the code can raise is a value of \<open>py_error\<close>, returned as
  \<open>Inl\<close>.
\<close>

datatype pyval =
    PNone
  | PBool bool
  | PNum real
  | PStr string
  | PList "pyval list"
  | PDict "(string \<times> pyval) list"

datatype py_error =
    TypeError
  | ValueError
  | AttributeError
  | ZeroDivisionError
  | StatisticsError

type_synonym 'a res = "py_error + 'a"

definition ebind :: "'e + 'a \<Rightarrow> ('a \<Rightarrow> 'e + 'b) \<Rightarrow> 'e + 'b" where
  "ebind m f = (case m of Inl e \<Rightarrow> Inl e | Inr x \<Rightarrow> f x)"

text \<open>A comprehension \<^verbatim>\<open>[f(x) for x in xs]\<close> whose body may raise: the first
  exception, left to right, is the result.\<close>

fun mapM :: "('a \<Rightarrow> 'b res) \<Rightarrow> 'a list \<Rightarrow> 'b list res" where
  "mapM f [] = Inr []"
| "mapM f (x # xs) = ebind (f x) (\<lambda>y. ebind (mapM f xs) (\<lambda>ys. Inr (y # ys)))"

text \<open>\<^verbatim>\<open>[x for x in xs if p(x)]\<close> with a test that may raise.\<close>

fun filterM :: "('a \<Rightarrow> bool res) \<Rightarrow> 'a list \<Rightarrow> 'a list res" where
  "filterM p [] = Inr []"
| "filterM p (x # xs) =
     ebind (p x) (\<lambda>b. ebind (filterM p xs) (\<lambda>ys. Inr (if b then x # ys else ys)))"

text \<open>Truth value of an object (\<^verbatim>\<open>if not transactions\<close>).\<close>

fun py_truthy :: "pyval \<Rightarrow> bool" where
  "py_truthy PNone = False"
| "py_truthy (PBool b) = b"
| "py_truthy (PNum r) = (r \<noteq> 0)"
| "py_truthy (PStr s) = (s \<noteq> [])"
| "py_truthy (PList xs) = (xs \<noteq> [])"
| "py_truthy (PDict kvs) = (kvs \<noteq> [])"

text \<open>\<^verbatim>\<open>len(x)\<close>: defined on strings, lists and dictionaries only.\<close>

fun py_len :: "pyval \<Rightarrow> nat res" where
  "py_len (PStr s) = Inr (length s)"
| "py_len (PList xs) = Inr (length xs)"
| "py_len (PDict kvs) = Inr (length kvs)"
| "py_len _ = Inl TypeError"

text \<open>\<^verbatim>\<open>for tx in x\<close>: a string yields its characters, a dictionary its keys.\<close>

fun py_iter :: "pyval \<Rightarrow> pyval list res" where
  "py_iter (PStr s) = Inr (map (\<lambda>c. PStr [c]) s)"
| "py_iter (PList xs) = Inr xs"
| "py_iter (PDict kvs) = Inr (map (\<lambda>kv. PStr (fst kv)) kvs)"
| "py_iter _ = Inl TypeError"

text \<open>\<^verbatim>\<open>tx.get(k, d)\<close>: only a dictionary has the method.\<close>

fun py_get :: "pyval \<Rightarrow> string \<Rightarrow> pyval \<Rightarrow> pyval res" where
  "py_get (PDict kvs) k d = Inr (case map_of kvs k of None \<Rightarrow> d | Some v \<Rightarrow> v)"
| "py_get _ k d = Inl AttributeError"

text \<open>
  \<^verbatim>\<open>float(v)\<close>. Parsing a string is Python's built-in; it is the parameter \<open>pf\<close>
  (\<open>None\<close> where Python raises \<^verbatim>\<open>ValueError\<close>).
\<close>

fun py_float :: "(string \<Rightarrow> real option) \<Rightarrow> pyval \<Rightarrow> real res" where
  "py_float pf (PNum r) = Inr r"
| "py_float pf (PBool b) = Inr (if b then 1 else 0)"
| "py_float pf (PStr s) = (case pf s of None \<Rightarrow> Inl ValueError | Some r \<Rightarrow> Inr r)"
| "py_float pf _ = Inl TypeError"

text \<open>\<^verbatim>\<open>a / b\<close> on floats raises on a zero divisor.\<close>

definition py_div :: "real \<Rightarrow> real \<Rightarrow> real res" where
  "py_div a b = (if b = 0 then Inl ZeroDivisionError else Inr (a / b))"

subsection \<open>Doubles\<close>

text \<open>
  The result of a float operation is the exact result rounded to the nearest double, a tie
  going to the even significand. \<open>normalize\<close> scales a positive number into
  \<open>[2^52, 2^53)\<close>, where the doubles are the integers; its first argument bounds the
  number of steps, and 2200 steps cover every normal double (the exponents run from
  \<open>-1022\<close> to \<open>1023\<close>). Subnormal results and overflow are not modelled.
\<close>

definition round_half_even :: "real \<Rightarrow> int" where
  "round_half_even y =
     (let f = \<lfloor>y\<rfloor>; d = y - of_int f in
      if d < 1 / 2 then f else if d > 1 / 2 then f + 1 else if even f then f else f + 1)"

fun normalize :: "nat \<Rightarrow> real \<Rightarrow> real \<Rightarrow> real \<times> real" where
  "normalize 0 y s = (y, s)"
| "normalize (Suc n) y s =
     (if y < 4503599627370496 then normalize n (y * 2) (s * 2)
      else if 9007199254740992 \<le> y then normalize n (y / 2) (s / 2)
      else (y, s))"

definition fl :: "real \<Rightarrow> real" where
  "fl x = (if x = 0 then 0
           else case normalize 2200 \<bar>x\<bar> 1 of
                  (y, s) \<Rightarrow> sgn x * real_of_int (round_half_even y) / s)"

section \<open>SeiAnalyzer\<close>

subsection \<open>calculate_whale_score\<close>

text \<open>
  \<^verbatim>\<open>percentage_of_supply = (balance / total_supply) * 100\<close> is two double operations,
  and the literals it is compared with are doubles. The seven scores returned are literals;
  each is written as its decimal.
\<close>

definition calculate_whale_score :: "real \<Rightarrow> real \<Rightarrow> real res" where
  "calculate_whale_score balance total_supply =
     (if balance \<le> 0 then Inr 0
      else ebind (py_div balance total_supply) (\<lambda>q.
        let percentage_of_supply = fl (fl q * 100) in
        if percentage_of_supply \<ge> 1 then Inr 1
        else if percentage_of_supply \<ge> fl (1 / 10) then Inr (9 / 10)
        else if percentage_of_supply \<ge> fl (1 / 100) then Inr (7 / 10)
        else if percentage_of_supply \<ge> fl (1 / 1000) then Inr (5 / 10)
        else if percentage_of_supply \<ge> fl (1 / 10000) then Inr (3 / 10)
        else Inr (1 / 10)))"

text \<open>The default argument \<^verbatim>\<open>total_supply = 10_000_000_000\<close>.\<close>

definition default_total_supply :: real where
  "default_total_supply = 10000000000"

subsection \<open>Helpers from the Python library\<close>

text \<open>\<^verbatim>\<open>statistics.mean\<close>, \<^verbatim>\<open>max\<close>, \<^verbatim>\<open>statistics.median\<close>: each raises on
  an empty sequence.\<close>

definition py_mean :: "real list \<Rightarrow> real res" where
  "py_mean xs = (if xs = [] then Inl StatisticsError
                 else Inr (sum_list xs / real (length xs)))"

definition py_max :: "real list \<Rightarrow> real res" where
  "py_max xs = (case xs of [] \<Rightarrow> Inl ValueError | y # ys \<Rightarrow> Inr (fold max ys y))"

definition py_min :: "real list \<Rightarrow> real res" where
  "py_min xs = (case xs of [] \<Rightarrow> Inl ValueError | y # ys \<Rightarrow> Inr (fold min ys y))"

definition py_median :: "real list \<Rightarrow> real res" where
  "py_median xs =
     (let s = sort xs; n = length xs in
      if n = 0 then Inl StatisticsError
      else if n mod 2 = 1 then Inr (s ! (n div 2))
      else Inr ((s ! (n div 2 - 1) + s ! (n div 2)) / 2))"

text \<open>
  Adding to a \<^verbatim>\<open>set\<close> hashes the element: lists and dictionaries are unhashable, and
  \<^verbatim>\<open>True\<close>/\<^verbatim>\<open>False\<close> are the same elements as 1/0.
\<close>

fun py_hashable :: "pyval \<Rightarrow> pyval res" where
  "py_hashable (PList xs) = Inl TypeError"
| "py_hashable (PDict kvs) = Inl TypeError"
| "py_hashable (PBool b) = Inr (PNum (if b then 1 else 0))"
| "py_hashable v = Inr v"

definition set_add :: "pyval \<Rightarrow> pyval set \<Rightarrow> pyval set res" where
  "set_add v s = ebind (py_hashable v) (\<lambda>k. Inr (insert k s))"

text \<open>\<^verbatim>\<open>if k in tx: s.add(tx[k])\<close>. Both callers have already called
  \<^verbatim>\<open>tx.get\<close> on every element, so \<open>tx\<close> is a dictionary when this runs.\<close>

fun add_if_present :: "string \<Rightarrow> pyval \<Rightarrow> pyval set \<Rightarrow> pyval set res" where
  "add_if_present k (PDict kvs) s =
     (case map_of kvs k of None \<Rightarrow> Inr s | Some v \<Rightarrow> set_add v s)"
| "add_if_present k _ s = Inl TypeError"

text \<open>The loop that fills \<^verbatim>\<open>unique_counterparties\<close> (and
  \<^verbatim>\<open>unique_addresses\<close>) from the \<^verbatim>\<open>'from'\<close> and \<^verbatim>\<open>'to'\<close> keys.\<close>

fun collect_from_to :: "pyval list \<Rightarrow> pyval set \<Rightarrow> pyval set res" where
  "collect_from_to [] s = Inr s"
| "collect_from_to (tx # txs) s =
     ebind (add_if_present ''from'' tx s) (\<lambda>s1.
     ebind (add_if_present ''to'' tx s1) (\<lambda>s2.
     collect_from_to txs s2))"

text \<open>\<^verbatim>\<open>float(tx.get('amount', 0))\<close>.\<close>

definition amount_of :: "(string \<Rightarrow> real option) \<Rightarrow> pyval \<Rightarrow> real res" where
  "amount_of pf tx = ebind (py_get tx ''amount'' (PNum 0)) (py_float pf)"

subsection \<open>calculate_risk_factor\<close>

definition calculate_risk_factor ::
  "(string \<Rightarrow> real option) \<Rightarrow> pyval \<Rightarrow> real \<Rightarrow> real res" where
  "calculate_risk_factor pf transactions balance =
     (if \<not> py_truthy transactions then Inr (5 / 10)
      else
        ebind (py_len transactions) (\<lambda>tx_count.
        let frequency = (if tx_count > 1000 then 8 / 10
                         else if tx_count > 100 then 6 / 10
                         else 3 / 10) in
        ebind (py_iter transactions) (\<lambda>txs.
        ebind (mapM (amount_of pf) txs) (\<lambda>amounts.
        ebind (if amounts \<noteq> [] then
                 ebind (py_mean amounts) (\<lambda>avg_amount.
                 ebind (py_max amounts) (\<lambda>max_amount.
                 Inr [if max_amount > balance * (5 / 10) then 7 / 10
                      else if avg_amount > balance * (1 / 10) then 6 / 10
                      else 3 / 10]))
               else Inr []) (\<lambda>amount_part.
        ebind (collect_from_to txs {}) (\<lambda>unique_counterparties.
        ebind (py_div (real (card unique_counterparties)) (real (max tx_count 1)))
          (\<lambda>counterparty_ratio.
        let diversity = (if counterparty_ratio < 1 / 10 then 8 / 10
                         else if counterparty_ratio < 3 / 10 then 6 / 10
                         else 3 / 10) in
        ebind (py_mean ([frequency] @ amount_part @ [diversity])) (\<lambda>m.
        Inr (min m 1)))))))))"

subsection \<open>calculate_influence_score\<close>

definition calculate_influence_score ::
  "(string \<Rightarrow> real option) \<Rightarrow> pyval \<Rightarrow> real \<Rightarrow> real res" where
  "calculate_influence_score pf transactions balance =
     (if \<not> py_truthy transactions then Inr (1 / 10)
      else
        ebind (py_iter transactions) (\<lambda>txs.
        ebind (mapM (amount_of pf) txs) (\<lambda>amounts.
        let total_volume = sum_list amounts in
        ebind (py_div total_volume (balance * 10)) (\<lambda>q.
        let volume_score = min q 1 * (4 / 10) in
        ebind (py_len transactions) (\<lambda>tx_count.
        let activity_score = min (real tx_count / 1000) 1 * (3 / 10) in
        ebind (collect_from_to txs {}) (\<lambda>unique_addresses.
        let network_score = min (real (card unique_addresses) / 100) 1 * (3 / 10) in
        Inr (min (volume_score + activity_score + network_score) 1)))))))"

subsection \<open>analyze_transaction_patterns\<close>

text \<open>The returned dictionary: the two-entry \<^verbatim>\<open>no_activity\<close> dictionary, or the
  statistics.\<close>

record pattern_stats =
  primary_pattern :: string
  pattern_transaction_count :: nat
  average_amount :: real
  median_amount :: real
  max_amount :: real
  incoming_ratio :: real
  outgoing_ratio :: real
  patterns :: "string list"

datatype pattern_summary = NoActivity | Patterns pattern_stats

text \<open>\<^verbatim>\<open>tx.get('type') == v\<close>: the default of \<^verbatim>\<open>get\<close> is \<^verbatim>\<open>None\<close>.\<close>

definition type_is :: "string \<Rightarrow> pyval \<Rightarrow> bool res" where
  "type_is v tx = ebind (py_get tx ''type'' PNone) (\<lambda>t. Inr (t = PStr v))"

definition analyze_transaction_patterns ::
  "(string \<Rightarrow> real option) \<Rightarrow> pyval \<Rightarrow> pattern_summary res" where
  "analyze_transaction_patterns pf transactions =
     (if \<not> py_truthy transactions then Inr NoActivity
      else
        ebind (py_len transactions) (\<lambda>tx_count.
        ebind (py_iter transactions) (\<lambda>txs.
        ebind (mapM (amount_of pf) txs) (\<lambda>amounts.
        ebind (if amounts \<noteq> [] then
                 ebind (py_mean amounts) (\<lambda>a.
                 ebind (py_median amounts) (\<lambda>m.
                 ebind (py_max amounts) (\<lambda>mx.
                 ebind (py_min amounts) (\<lambda>mn. Inr (a, m, mx, mn)))))
               else Inr (0, 0, 0, 0)) (\<lambda>(avg_amount, median_amount, max_amount, min_amount).
        ebind (filterM (type_is ''incoming'') txs) (\<lambda>incoming_txs.
        ebind (filterM (type_is ''outgoing'') txs) (\<lambda>outgoing_txs.
        let incoming = length incoming_txs;
            outgoing = length outgoing_txs;
            patterns =
              (if tx_count > 1000 then [''high_frequency_trader'']
               else if incoming > outgoing * 2 then [''accumulator'']
               else if outgoing > incoming * 2 then [''distributor'']
               else if avg_amount > median_amount * 3 then [''irregular_amounts'']
               else [''regular_user'']) in
        ebind (py_div (real incoming) (real (max tx_count 1))) (\<lambda>ir.
        ebind (py_div (real outgoing) (real (max tx_count 1))) (\<lambda>or.
        Inr (Patterns \<lparr>
          primary_pattern = (if patterns \<noteq> [] then hd patterns else ''unknown''),
          pattern_transaction_count = tx_count,
          average_amount = avg_amount,
          median_amount = median_amount,
          max_amount = max_amount,
          incoming_ratio = ir,
          outgoing_ratio = or,
          patterns = patterns \<rparr>))))))))))"

subsection \<open>get_sei_specific_metrics\<close>

text \<open>\<^verbatim>\<open>str.lower\<close> on ASCII letters (an upper-case letter, code 65 to 90, gets
  bit 5 set, which adds 32), \<^verbatim>\<open>str.startswith\<close> and the substring test
  \<^verbatim>\<open>p in s\<close>. A value that is not a string has neither method.\<close>

definition lower_char :: "char \<Rightarrow> char" where
  "lower_char c =
     (let n = (of_char c :: nat) in
      if 65 \<le> n \<and> n \<le> 90
      then Char (digit0 c) (digit1 c) (digit2 c) (digit3 c) (digit4 c) True (digit6 c) (digit7 c)
      else c)"

fun startswith :: "string \<Rightarrow> string \<Rightarrow> bool" where
  "startswith s [] = True"
| "startswith [] (p # ps) = False"
| "startswith (c # cs) (p # ps) = (c = p \<and> startswith cs ps)"

fun str_contains :: "string \<Rightarrow> string \<Rightarrow> bool" where
  "str_contains p [] = (p = [])"
| "str_contains p (c # cs) = (startswith (c # cs) p \<or> str_contains p cs)"

fun py_lower :: "pyval \<Rightarrow> string res" where
  "py_lower (PStr s) = Inr (map lower_char s)"
| "py_lower _ = Inl AttributeError"

fun py_startswith :: "pyval \<Rightarrow> string \<Rightarrow> bool res" where
  "py_startswith (PStr s) p = Inr (startswith s p)"
| "py_startswith _ p = Inl AttributeError"

text \<open>\<^verbatim>\<open>'staking' in tx.get('type', '').lower()\<close>\<close>

definition is_staking_tx :: "pyval \<Rightarrow> bool res" where
  "is_staking_tx tx =
     ebind (py_get tx ''type'' (PStr [])) (\<lambda>t.
     ebind (py_lower t) (\<lambda>l. Inr (str_contains ''staking'' l)))"

text \<open>\<^verbatim>\<open>tx.get('to', '').startswith('sei1')\<close>\<close>

definition is_defi_tx :: "pyval \<Rightarrow> bool res" where
  "is_defi_tx tx = ebind (py_get tx ''to'' (PStr [])) (\<lambda>t. py_startswith t ''sei1'')"

record sei_metrics =
  staking_amount :: real
  defi_participation :: bool
  sei_network_score :: real
  estimated_rewards :: real
  validator_interactions :: nat

text \<open>\<^verbatim>\<open>self.sei_metrics["inflation_rate"]\<close>\<close>

definition inflation_rate :: real where
  "inflation_rate = 8 / 100"

definition get_sei_specific_metrics ::
  "(string \<Rightarrow> real option) \<Rightarrow> pyval \<Rightarrow> pyval \<Rightarrow> sei_metrics res" where
  "get_sei_specific_metrics pf address transactions =
     ebind (py_iter transactions) (\<lambda>txs.
     ebind (filterM is_staking_tx txs) (\<lambda>staking_txs.
     ebind (mapM (amount_of pf) staking_txs) (\<lambda>staking_amounts.
     let delegation_amount = sum_list staking_amounts in
     ebind (filterM is_defi_tx txs) (\<lambda>defi_txs.
     let defi_participation = (length defi_txs > 0);
         score0 = 5 / 10;
         score1 = (if delegation_amount > 0 then score0 + 2 / 10 else score0);
         score2 = (if defi_participation then score1 + 2 / 10 else score1) in
     ebind (py_len transactions) (\<lambda>n.
     let score3 = (if n > 50 then score2 + 1 / 10 else score2) in
     Inr \<lparr>
       staking_amount = delegation_amount,
       defi_participation = defi_participation,
       sei_network_score = min score3 1,
       estimated_rewards = delegation_amount * inflation_rate * (85 / 100),
       validator_interactions = length staking_txs \<rparr>)))))"

section \<open>The tool analyze_wallet\<close>

text \<open>
  \<^verbatim>\<open>round(x, n)\<close> acts on the double that the code holds for \<open>x\<close>; it is the
  parameter \<open>rnd\<close> of every function that reports rounded values.
\<close>

record scores =
  whale_score :: real
  risk_factor :: real
  influence_score :: real
  overall_score :: real
  scores_sei_network_score :: real

record wallet_metrics =
  balance_sei :: real
  transaction_count :: nat
  estimated_usd_value :: real
  balance_percentage_of_supply :: real

record risk_assessment =
  level :: string
  factors :: "string list"

record wallet_analysis =
  address :: pyval
  analysis_timestamp :: string
  classification :: string
  scores :: scores
  wallet_metrics :: wallet_metrics
  transaction_patterns :: pattern_summary
  sei_specific :: sei_metrics
  risk_assessment :: risk_assessment
  recommendations :: "string list"

text \<open>\<^verbatim>\<open>any(p(x) for x in xs)\<close> stops at the first true element.\<close>

fun anyM :: "('a \<Rightarrow> bool res) \<Rightarrow> 'a list \<Rightarrow> bool res" where
  "anyM p [] = Inr False"
| "anyM p (x # xs) = ebind (p x) (\<lambda>b. if b then Inr True else anyM p xs)"

text \<open>\<^verbatim>\<open>set(tx.get('from', '') for tx in transactions)\<close>\<close>

fun from_set :: "pyval list \<Rightarrow> pyval set \<Rightarrow> pyval set res" where
  "from_set [] s = Inr s"
| "from_set (tx # txs) s =
     ebind (py_get tx ''from'' (PStr [])) (\<lambda>v.
     ebind (set_add v s) (\<lambda>s1. from_set txs s1))"

text \<open>The list comprehensions that drop the \<^verbatim>\<open>None\<close> entries.\<close>

definition triggered :: "(bool \<times> string) list \<Rightarrow> string list" where
  "triggered rules = map snd (filter fst rules)"

text \<open>
  The dictionary \<^verbatim>\<open>result\<close> that the tool returns, with the overall score and the
  classification computed just before it. \<^verbatim>\<open>datetime.now().isoformat()\<close> reads the
  wall clock; the reading is the argument \<open>now\<close>.
\<close>

definition wallet_result ::
  "(real \<Rightarrow> nat \<Rightarrow> real) \<Rightarrow> string \<Rightarrow> pyval \<Rightarrow> real \<Rightarrow> nat \<Rightarrow> real \<Rightarrow> real \<Rightarrow> real \<Rightarrow> pattern_summary
     \<Rightarrow> sei_metrics \<Rightarrow> real \<Rightarrow> pyval set \<Rightarrow> bool \<Rightarrow> wallet_analysis" where
  "wallet_result rnd now address' balance n whale_score' risk_factor' influence_score' patterns'
     sei_metrics share senders large =
     (let overall_score =
            whale_score' * (3 / 10) + (1 - risk_factor') * (3 / 10)
            + influence_score' * (4 / 10);
          classification =
            (if whale_score' \<ge> 8 / 10 then ''Whale''
             else if whale_score' \<ge> 5 / 10 then ''Large Holder''
             else if influence_score' \<ge> 7 / 10 then ''Active Trader''
             else if defi_participation sei_metrics then ''DeFi User''
             else if staking_amount sei_metrics > 0 then ''Staker''
             else ''Regular User'')
      in \<lparr>
       address = address',
       analysis_timestamp = now,
       classification = classification,
       scores = \<lparr>
         whale_score = rnd whale_score' 3,
         risk_factor = rnd risk_factor' 3,
         influence_score = rnd influence_score' 3,
         overall_score = rnd overall_score 3,
         scores_sei_network_score = rnd (sei_network_score sei_metrics) 3 \<rparr>,
       wallet_metrics = \<lparr>
         balance_sei = balance,
         transaction_count = n,
         estimated_usd_value = balance * (45 / 100),
         balance_percentage_of_supply = share * 100 \<rparr>,
       transaction_patterns = patterns',
       sei_specific = sei_metrics,
       risk_assessment = \<lparr>
         level = (if risk_factor' > 7 / 10 then ''High''
                  else if risk_factor' > 4 / 10 then ''Medium'' else ''Low''),
         factors = triggered
           [(n > 1000, ''High transaction frequency''),
            (real (card senders) < real n * (1 / 10), ''Limited counterparties''),
            (large, ''Large transaction amounts'')] \<rparr>,
       recommendations = triggered
         [(risk_factor' > 8 / 10, ''Monitor for wash trading''),
          (influence_score' > 8 / 10 \<and> n > 500, ''Potential market maker''),
          (sei_network_score sei_metrics > 8 / 10, ''Strong network participant''),
          (staking_amount sei_metrics > 1000000, ''Consider for validator program'')]
     \<rparr>)"

text \<open>\<^verbatim>\<open>float(tx.get('amount', 0)) > balance * 0.5\<close>\<close>

definition is_large_tx :: "(string \<Rightarrow> real option) \<Rightarrow> real \<Rightarrow> pyval \<Rightarrow> bool res" where
  "is_large_tx pf balance tx = ebind (amount_of pf tx) (\<lambda>a. Inr (a > balance * (5 / 10)))"

definition analyze_wallet ::
  "(string \<Rightarrow> real option) \<Rightarrow> (real \<Rightarrow> nat \<Rightarrow> real) \<Rightarrow> string \<Rightarrow> pyval
     \<Rightarrow> wallet_analysis res" where
  "analyze_wallet pf rnd now walletData =
     ebind (py_get walletData ''address'' (PStr ''unknown'')) (\<lambda>address.
     ebind (py_get walletData ''balance'' (PNum 0)) (\<lambda>balance_value.
     ebind (py_float pf balance_value) (\<lambda>balance.
     ebind (py_get walletData ''transactions'' (PList [])) (\<lambda>transactions.
     ebind (calculate_whale_score balance default_total_supply) (\<lambda>whale_score.
     ebind (calculate_risk_factor pf transactions balance) (\<lambda>risk_factor.
     ebind (calculate_influence_score pf transactions balance) (\<lambda>influence_score.
     ebind (analyze_transaction_patterns pf transactions) (\<lambda>patterns.
     ebind (get_sei_specific_metrics pf address transactions) (\<lambda>sei_metrics.
     ebind (py_len transactions) (\<lambda>n.
     ebind (py_div balance 10000000000) (\<lambda>share.
     ebind (py_iter transactions) (\<lambda>txs.
     ebind (from_set txs {}) (\<lambda>senders.
     ebind (anyM (is_large_tx pf balance) txs) (\<lambda>large.
     Inr (wallet_result rnd now address balance n whale_score risk_factor influence_score
            patterns sei_metrics share senders large)))))))))))))))"

section \<open>The tool compare_addresses\<close>

text \<open>
  \<^verbatim>\<open>statistics.stdev\<close> raises below two data points; the double it returns otherwise
  is given by the parameter \<open>stdev\<close> of the functions that call it.
\<close>

definition py_stdev :: "(real list \<Rightarrow> real) \<Rightarrow> real list \<Rightarrow> real res" where
  "py_stdev stdev xs = (if length xs < 2 then Inl StatisticsError else Inr (stdev xs))"

record comparison_entry =
  cmp_address :: pyval
  cmp_whale_score :: real
  cmp_risk_factor :: real
  cmp_influence_score :: real
  cmp_classification :: string
  cmp_balance :: real
  cmp_tx_count :: nat

record comparison_summary =
  total_addresses :: nat
  highest_whale_score :: real
  highest_risk :: real
  average_whale_score :: real
  average_risk :: real

record insights =
  whale_concentration :: nat
  high_risk_addresses :: nat
  potential_connections :: string

record comparison =
  comparison_summary :: comparison_summary
  individual_analysis :: "comparison_entry list"
  insights :: insights

text \<open>The tool returns either the dictionary \<^verbatim>\<open>{"error": msg}\<close> or the comparison.\<close>

datatype compare_output = ErrorDict string | Comparison comparison

text \<open>The body of the loop over \<^verbatim>\<open>addresses\<close>.\<close>

definition compare_entry ::
  "(string \<Rightarrow> real option) \<Rightarrow> (real \<Rightarrow> nat \<Rightarrow> real) \<Rightarrow> string \<Rightarrow> pyval
     \<Rightarrow> comparison_entry res" where
  "compare_entry pf rnd now addr_data =
     ebind (analyze_wallet pf rnd now addr_data) (\<lambda>analysis.
     ebind (py_get addr_data ''address'' (PStr ''unknown'')) (\<lambda>a.
     ebind (py_get addr_data ''balance'' (PNum 0)) (\<lambda>b.
     ebind (py_float pf b) (\<lambda>balance.
     ebind (py_get addr_data ''transactions'' (PList [])) (\<lambda>t.
     ebind (py_len t) (\<lambda>n.
     Inr \<lparr>
       cmp_address = a,
       cmp_whale_score = whale_score (scores analysis),
       cmp_risk_factor = risk_factor (scores analysis),
       cmp_influence_score = influence_score (scores analysis),
       cmp_classification = classification analysis,
       cmp_balance = balance,
       cmp_tx_count = n \<rparr>))))))"

text \<open>The dictionary \<^verbatim>\<open>result\<close> of the comparison.\<close>

definition comparison_result ::
  "(real \<Rightarrow> nat \<Rightarrow> real) \<Rightarrow> nat \<Rightarrow> comparison_entry list \<Rightarrow> real \<Rightarrow> real \<Rightarrow> real \<Rightarrow> real
     \<Rightarrow> real \<Rightarrow> comparison" where
  "comparison_result rnd n comparisons hw hr aw ar sd =
     (let whale_scores = map cmp_whale_score comparisons;
          risk_factors = map cmp_risk_factor comparisons
      in \<lparr>
        comparison_summary = \<lparr>
          total_addresses = n,
          highest_whale_score = hw,
          highest_risk = hr,
          average_whale_score = rnd aw 3,
          average_risk = rnd ar 3 \<rparr>,
        individual_analysis = comparisons,
        insights = \<lparr>
          whale_concentration = length (filter (\<lambda>w. w > 7 / 10) whale_scores),
          high_risk_addresses = length (filter (\<lambda>r. r > 7 / 10) risk_factors),
          potential_connections =
            (if sd < 1 / 10 then ''Manual review recommended''
             else ''No obvious connections'') \<rparr> \<rparr>)"

definition compare_addresses ::
  "(string \<Rightarrow> real option) \<Rightarrow> (real \<Rightarrow> nat \<Rightarrow> real) \<Rightarrow> (real list \<Rightarrow> real) \<Rightarrow> string
     \<Rightarrow> pyval \<Rightarrow> compare_output res" where
  "compare_addresses pf rnd stdev now addressData =
     ebind (py_get addressData ''addresses'' (PList [])) (\<lambda>addresses.
     ebind (py_len addresses) (\<lambda>n.
     if n < 2 then Inr (ErrorDict ''At least 2 addresses required for comparison'')
     else
       ebind (py_iter addresses) (\<lambda>addrs.
       ebind (mapM (compare_entry pf rnd now) addrs) (\<lambda>comparisons.
       ebind (py_max (map cmp_whale_score comparisons)) (\<lambda>hw.
       ebind (py_max (map cmp_risk_factor comparisons)) (\<lambda>hr.
       ebind (py_mean (map cmp_whale_score comparisons)) (\<lambda>aw.
       ebind (py_mean (map cmp_risk_factor comparisons)) (\<lambda>ar.
       ebind (py_stdev stdev (map cmp_whale_score comparisons)) (\<lambda>sd.
       Inr (Comparison (comparison_result rnd n comparisons hw hr aw ar sd)))))))))))"

section \<open>The HTTP endpoint /analyze/wallet\<close>

text \<open>
  \<^verbatim>\<open>analyze_wallet_endpoint\<close> of \<^verbatim>\<open>analyze_server_simple_http.py\<close>. Inside the
  \<^verbatim>\<open>try\<close> block either a Python exception or the \<^verbatim>\<open>HTTPException(400)\<close> for a
  missing address is raised; the handler \<^verbatim>\<open>except Exception\<close> catches both and raises
  \<^verbatim>\<open>HTTPException(500)\<close>. A response is the status of the exception that leaves the
  endpoint, or the JSON body.
\<close>

datatype exn = Raised py_error | HTTPException nat

datatype http_response = HTTPError nat | JSONResponse wallet_analysis

definition lift_exn :: "'a res \<Rightarrow> exn + 'a" where
  "lift_exn m = (case m of Inl e \<Rightarrow> Inl (Raised e) | Inr x \<Rightarrow> Inr x)"

definition analyze_wallet_endpoint_body ::
  "(string \<Rightarrow> real option) \<Rightarrow> (real \<Rightarrow> nat \<Rightarrow> real) \<Rightarrow> string \<Rightarrow> pyval
     \<Rightarrow> exn + wallet_analysis" where
  "analyze_wallet_endpoint_body pf rnd now body =
     ebind (lift_exn (py_get body ''address'' PNone)) (\<lambda>address.
     ebind (lift_exn (py_get body ''balance'' (PNum 1000000))) (\<lambda>balance.
     ebind (lift_exn (py_get body ''transactions'' (PList []))) (\<lambda>transactions.
     if \<not> py_truthy address then Inl (HTTPException 400)
     else lift_exn (analyze_wallet pf rnd now
            (PDict [(''address'', address), (''balance'', balance),
                    (''transactions'', transactions)])))))"

definition analyze_wallet_endpoint ::
  "(string \<Rightarrow> real option) \<Rightarrow> (real \<Rightarrow> nat \<Rightarrow> real) \<Rightarrow> string \<Rightarrow> pyval
     \<Rightarrow> http_response" where
  "analyze_wallet_endpoint pf rnd now body =
     (case analyze_wallet_endpoint_body pf rnd now body of
        Inl e \<Rightarrow> HTTPError 500
      | Inr result \<Rightarrow> JSONResponse result)"

section \<open>The live variant: analyze_wallet_live and compare_sei_addresses\<close>

text \<open>
  \<^verbatim>\<open>analyze_server_live.py\<close> fetches its data from the chain. The two fetching methods
  \<^verbatim>\<open>get_account_info\<close> and \<^verbatim>\<open>get_transactions\<close> are the fields of \<open>sei_network\<close>:
  the first returns the account or the dictionary with an \<^verbatim>\<open>"error"\<close> entry, the second
  the parsed transactions (the dictionaries built by \<^verbatim>\<open>_parse_transaction\<close>).
\<close>

record live_tx =
  tx_hash :: string
  tx_height :: int
  tx_timestamp :: string
  tx_direction :: string
  tx_type :: string
  tx_amount :: real
  tx_counterparty :: string
  tx_fee :: real
  tx_status :: string

record account_info =
  acct_balance_sei :: real
  acct_balance_usei :: int
  acct_account_number :: pyval
  acct_sequence :: pyval

record sei_network =
  get_account_info :: "string \<Rightarrow> string + account_info"
  get_transactions :: "string \<Rightarrow> live_tx list"

record live_scores =
  live_whale_score :: real
  live_risk_factor :: real
  live_influence_score :: real
  live_overall_score :: real

record live_wallet_metrics =
  live_balance_sei :: real
  live_balance_usei :: int
  live_transaction_count :: nat
  live_account_number :: pyval
  live_sequence :: pyval
  staking_transactions :: nat
  reward_transactions :: nat

record transaction_analysis =
  total_transactions :: nat
  successful_transactions :: nat
  failed_transactions :: nat
  total_volume_sei :: real
  average_transaction_amount :: real
  latest_transaction :: "string option"

record live_analysis =
  live_address :: string
  live_analysis_timestamp :: string
  live_classification :: string
  live_scores :: live_scores
  live_wallet_metrics :: live_wallet_metrics
  transaction_analysis :: transaction_analysis
  recent_transactions :: "live_tx list"
  live_recommendations :: "string list"

text \<open>The result is the analysis, or the dictionary that has an \<^verbatim>\<open>"error"\<close> entry.\<close>

datatype live_result = LiveFailed string | LiveAnalysis live_analysis

definition analyze_wallet_live ::
  "(real \<Rightarrow> nat \<Rightarrow> real) \<Rightarrow> sei_network \<Rightarrow> string \<Rightarrow> string \<Rightarrow> live_result" where
  "analyze_wallet_live rnd net now addr =
     (case get_account_info net addr of
        Inl err \<Rightarrow> LiveFailed err
      | Inr info \<Rightarrow>
        let transactions = get_transactions net addr;
            balance = acct_balance_sei info;
            whale_score = min (balance / 10000000) 1;
            n = length transactions;
            risk0 = (if n > 1000 then 3 / 10 + 3 / 10 else 3 / 10);
            failed_txs = length (filter (\<lambda>tx. tx_status tx = ''failed'') transactions);
            risk1 = (if real failed_txs > real n * (1 / 10) then risk0 + 2 / 10 else risk0);
            risk_factor = min risk1 1;
            total_volume = sum_list (map tx_amount transactions);
            influence_score =
              min (if balance > 0 then total_volume / balance else 0) 1 * (5 / 10);
            staking_txs = filter (\<lambda>tx. tx_type tx = ''staking'') transactions;
            reward_txs = filter (\<lambda>tx. tx_type tx = ''rewards'') transactions;
            classification =
              (if whale_score > 8 / 10 then ''Whale''
               else if whale_score > 5 / 10 then ''Large Holder''
               else if length staking_txs > 10 then ''Active Staker''
               else if n > 100 then ''Active Trader''
               else ''Regular User'')
        in LiveAnalysis \<lparr>
          live_address = addr,
          live_analysis_timestamp = now,
          live_classification = classification,
          live_scores = \<lparr>
            live_whale_score = rnd whale_score 3,
            live_risk_factor = rnd risk_factor 3,
            live_influence_score = rnd influence_score 3,
            live_overall_score =
              rnd (whale_score * (4 / 10) + (1 - risk_factor) * (3 / 10)
                        + influence_score * (3 / 10)) 3 \<rparr>,
          live_wallet_metrics = \<lparr>
            live_balance_sei = balance,
            live_balance_usei = acct_balance_usei info,
            live_transaction_count = n,
            live_account_number = acct_account_number info,
            live_sequence = acct_sequence info,
            staking_transactions = length staking_txs,
            reward_transactions = length reward_txs \<rparr>,
          transaction_analysis = \<lparr>
            total_transactions = n,
            successful_transactions =
              length (filter (\<lambda>tx. tx_status tx = ''success'') transactions),
            failed_transactions = failed_txs,
            total_volume_sei = rnd total_volume 6,
            average_transaction_amount =
              (if transactions \<noteq> [] then rnd (total_volume / real n) 6 else 0),
            latest_transaction =
              (case transactions of [] \<Rightarrow> None | tx # _ \<Rightarrow> Some (tx_timestamp tx)) \<rparr>,
          recent_transactions = take 5 transactions,
          live_recommendations = triggered
            [(whale_score > 7 / 10, ''High-value wallet - monitor for large movements''),
             (length staking_txs > 5, ''Active staker - earning rewards''),
             (length staking_txs = 0 \<and> balance > 1000, ''Consider staking for rewards''),
             (real failed_txs > real n * (1 / 10), ''High transaction failure rate'')] \<rparr>)"

record live_comparison_summary =
  live_total_addresses :: nat
  successful_analyses :: nat
  highest_balance :: real
  lowest_balance :: real
  average_balance :: real
  live_highest_whale_score :: real
  total_combined_balance :: real
  balance_similarity_score :: real

record live_comparison_entry =
  lc_address :: string
  lc_balance_sei :: real
  lc_classification :: string
  lc_whale_score :: real
  lc_transaction_count :: nat
  lc_risk_factor :: real

record live_insights =
  whale_addresses :: nat
  high_activity_addresses :: nat
  potential_related_addresses :: string
  combined_influence :: string

record live_comparison =
  live_comparison_summary :: live_comparison_summary
  live_individual_analysis :: "live_comparison_entry list"
  live_insights :: live_insights

text \<open>
  \<^verbatim>\<open>compare_sei_addresses\<close> returns \<^verbatim>\<open>{"error": msg}\<close> from one of its two guards,
  the dictionary built by its exception handler, or the comparison.
\<close>

datatype live_compare_output =
    LiveErrorDict string
  | LiveCompareFailed py_error
  | LiveComparison live_comparison

text \<open>The analyses that are kept: \<^verbatim>\<open>if "error" not in analysis\<close>.\<close>

fun successful :: "live_result list \<Rightarrow> live_analysis list" where
  "successful [] = []"
| "successful (LiveFailed e # rs) = successful rs"
| "successful (LiveAnalysis a # rs) = a # successful rs"

definition compare_sei_addresses ::
  "(real \<Rightarrow> nat \<Rightarrow> real) \<Rightarrow> (real list \<Rightarrow> real) \<Rightarrow> sei_network \<Rightarrow> string \<Rightarrow> string list
     \<Rightarrow> live_compare_output" where
  "compare_sei_addresses rnd stdev net now addresses =
     (if length addresses < 2
      then LiveErrorDict ''At least 2 addresses required for comparison''
      else
        let analyses = successful (map (analyze_wallet_live rnd net now) addresses) in
        if length analyses < 2
        then LiveErrorDict ''Could not analyze enough addresses for comparison''
        else
          let balances = map (\<lambda>a. live_balance_sei (live_wallet_metrics a)) analyses;
              whale_scores = map (\<lambda>a. live_whale_score (live_scores a)) analyses;
              tx_counts = map (\<lambda>a. live_transaction_count (live_wallet_metrics a)) analyses
          in
          case
            ebind (py_mean balances) (\<lambda>m.
            ebind (if m > 0 then ebind (py_stdev stdev balances) (\<lambda>sd. py_div sd m) else Inr 1)
              (\<lambda>balance_similarity.
            ebind (py_max balances) (\<lambda>hb.
            ebind (py_min balances) (\<lambda>lb.
            ebind (py_max whale_scores) (\<lambda>hw.
            Inr \<lparr>
              live_comparison_summary = \<lparr>
                live_total_addresses = length analyses,
                successful_analyses = length analyses,
                highest_balance = hb,
                lowest_balance = lb,
                average_balance = rnd m 6,
                live_highest_whale_score = hw,
                total_combined_balance = sum_list balances,
                balance_similarity_score = rnd (1 - min balance_similarity 1) 3 \<rparr>,
              live_individual_analysis = map (\<lambda>a. \<lparr>
                lc_address = live_address a,
                lc_balance_sei = live_balance_sei (live_wallet_metrics a),
                lc_classification = live_classification a,
                lc_whale_score = live_whale_score (live_scores a),
                lc_transaction_count = live_transaction_count (live_wallet_metrics a),
                lc_risk_factor = live_risk_factor (live_scores a) \<rparr>) analyses,
              live_insights = \<lparr>
                whale_addresses = length (filter (\<lambda>s. s > 7 / 10) whale_scores),
                high_activity_addresses = length (filter (\<lambda>t. t > 100) tx_counts),
                potential_related_addresses =
                  (if balance_similarity < 3 / 10 then ''Possible'' else ''Unlikely''),
                combined_influence =
                  (if sum_list balances > 1000000 then ''High''
                   else if sum_list balances > 100000 then ''Medium'' else ''Low'') \<rparr> \<rparr>)))))
          of Inl e \<Rightarrow> LiveCompareFailed e
           | Inr c \<Rightarrow> LiveComparison c)"

section \<open>Definitions used in the statements\<close>

text \<open>
  The classification of the specification: an ordered list of rules, the first rule whose
  condition holds gives the label, and \<open>Regular User\<close> is the label when none does.
\<close>

definition classification_rules :: "real \<Rightarrow> real \<Rightarrow> bool \<Rightarrow> real \<Rightarrow> (bool \<times> string) list" where
  "classification_rules w i defi staking =
     [(w \<ge> 8 / 10, ''Whale''),
      (w \<ge> 5 / 10, ''Large Holder''),
      (i \<ge> 7 / 10, ''Active Trader''),
      (defi, ''DeFi User''),
      (staking > 0, ''Staker'')]"

fun first_match :: "(bool \<times> string) list \<Rightarrow> string \<Rightarrow> string" where
  "first_match [] d = d"
| "first_match ((b, l) # rules) d = (if b then l else first_match rules d)"

definition classify_spec :: "real \<Rightarrow> real \<Rightarrow> bool \<Rightarrow> real \<Rightarrow> string" where
  "classify_spec w i defi staking =
     first_match (classification_rules w i defi staking) ''Regular User''"

text \<open>
  The three sub-scores of the risk factor as the specification words them, and the
  counterparties of a transaction list: the values found under the given keys, as elements
  of a set (\<open>set_key\<close> is the element a hashable value becomes).
\<close>

definition frequency_subscore :: "nat \<Rightarrow> real" where
  "frequency_subscore count =
     (if count > 1000 then 8 / 10 else if count > 100 then 6 / 10 else 3 / 10)"

definition concentration_subscore :: "real list \<Rightarrow> real \<Rightarrow> real" where
  "concentration_subscore amounts balance =
     (if Max (set amounts) > (5 / 10) * balance then 7 / 10
      else if sum_list amounts / real (length amounts) > (1 / 10) * balance then 6 / 10
      else 3 / 10)"

definition diversity_subscore :: "nat \<Rightarrow> nat \<Rightarrow> real" where
  "diversity_subscore unique count =
     (let ratio = real unique / real count in
      if ratio < 1 / 10 then 8 / 10 else if ratio < 3 / 10 then 6 / 10 else 3 / 10)"

definition field_values :: "string list \<Rightarrow> pyval \<Rightarrow> pyval list" where
  "field_values keys tx =
     (case tx of PDict kvs \<Rightarrow> List.map_filter (map_of kvs) keys | _ \<Rightarrow> [])"

fun set_key :: "pyval \<Rightarrow> pyval" where
  "set_key (PBool b) = PNum (if b then 1 else 0)"
| "set_key v = v"

definition counterparties_of :: "string list \<Rightarrow> pyval list \<Rightarrow> pyval set" where
  "counterparties_of keys txs = set (map set_key (concat (map (field_values keys) txs)))"

definition risk_formula :: "string list \<Rightarrow> pyval list \<Rightarrow> real list \<Rightarrow> real \<Rightarrow> real" where
  "risk_formula keys txs amounts balance =
     min ((frequency_subscore (length txs) + concentration_subscore amounts balance
           + diversity_subscore (card (counterparties_of keys txs)) (length txs)) / 3) 1"

text \<open>
  The two standard deviations as exact real numbers (the sum of squared deviations from
  the mean over \<open>n - 1\<close>, or over \<open>n\<close>), and what a comparison reports.
\<close>

definition sum_sq_dev :: "real list \<Rightarrow> real" where
  "sum_sq_dev xs =
     (let m = sum_list xs / real (length xs) in sum_list (map (\<lambda>x. (x - m)\<^sup>2) xs))"

definition sample_stdev :: "real list \<Rightarrow> real" where
  "sample_stdev xs = sqrt (sum_sq_dev xs / real (length xs - 1))"

definition population_stdev :: "real list \<Rightarrow> real" where
  "population_stdev xs = sqrt (sum_sq_dev xs / real (length xs))"

fun connections_of :: "compare_output res \<Rightarrow> string option" where
  "connections_of (Inr (Comparison c)) = Some (potential_connections (insights c))"
| "connections_of _ = None"

fun whale_scores_of :: "compare_output res \<Rightarrow> real list" where
  "whale_scores_of (Inr (Comparison c)) = map cmp_whale_score (individual_analysis c)"
| "whale_scores_of _ = []"

text \<open>
  Rounding an exact real to \<open>n\<close> decimals (a tie to the even neighbour), and what is
  asked of a rounding function: the result is within half a unit of the last decimal, and
  a number that has at most \<open>n\<close> decimals is returned unchanged.
\<close>

definition decimal_round :: "real \<Rightarrow> nat \<Rightarrow> real" where
  "decimal_round x n = real_of_int (round_half_even (x * 10 ^ n)) / 10 ^ n"

definition rounds_to_decimals :: "(real \<Rightarrow> nat \<Rightarrow> real) \<Rightarrow> bool" where
  "rounds_to_decimals rnd \<longleftrightarrow>
     (\<forall>x n. \<bar>rnd x n - x\<bar> \<le> 1 / (2 * 10 ^ n)
        \<and> (x * 10 ^ n \<in> \<int> \<longrightarrow> rnd x n = x))"

text \<open>
  Concrete inputs for the evaluations below. None of them holds a number written as a
  string, so the string parser is the one that accepts nothing.
\<close>

definition reject_all :: "string \<Rightarrow> real option" where
  "reject_all s = None"

definition scenario_wallet :: pyval where
  "scenario_wallet =
     PDict [(''address'', PStr ''sei1abc''), (''balance'', PNum 5000000),
            (''transactions'', PList [])]"

definition small_wallet :: pyval where
  "small_wallet =
     PDict [(''address'', PStr ''sei1abc''), (''balance'', PNum 3),
            (''transactions'', PList [PDict [(''amount'', PNum 1)]])]"

definition staker_wallet :: pyval where
  "staker_wallet =
     PDict [(''address'', PStr ''sei1abc''), (''balance'', PNum 3),
            (''transactions'',
               PList [PDict [(''amount'', PNum 1), (''type'', PStr ''Staking'')]])]"

definition no_staking :: sei_metrics where
  "no_staking = \<lparr> staking_amount = 0, defi_participation = False, sei_network_score = 1 / 2,
                  estimated_rewards = 0, validator_interactions = 0 \<rparr>"

definition one_staking :: sei_metrics where
  "one_staking = \<lparr> staking_amount = 1, defi_participation = False,
                   sei_network_score = 7 / 10, estimated_rewards = 17 / 250,
                   validator_interactions = 1 \<rparr>"

definition one_regular_tx :: pattern_summary where
  "one_regular_tx = Patterns
     \<lparr> primary_pattern = ''regular_user'', pattern_transaction_count = 1,
       average_amount = 1, median_amount = 1, max_amount = 1, incoming_ratio = 0,
       outgoing_ratio = 0, patterns = [''regular_user''] \<rparr>"

definition counterparty_only_tx :: pyval where
  "counterparty_only_tx = PDict [(''amount'', PNum 1), (''counterparty'', PStr ''sei1xyz'')]"

definition two_sends :: "pyval list" where
  "two_sends =
     [PDict [(''amount'', PNum 60), (''from'', PStr ''sei1a''), (''to'', PStr ''sei1b'')],
      PDict [(''amount'', PNum 1), (''from'', PStr ''sei1a'')]]"

definition three_wallets :: pyval where
  "three_wallets = PDict [(''addresses'', PList
     [PDict [(''address'', PStr ''sei1a''), (''balance'', PNum 5000000)],
      PDict [(''address'', PStr ''sei1b''), (''balance'', PNum 5000000)],
      PDict [(''address'', PStr ''sei1c''), (''balance'', PNum 50000000)]])]"

definition twin_wallets :: pyval where
  "twin_wallets = PDict [(''addresses'', PList [scenario_wallet, scenario_wallet])]"

definition twin_entry :: comparison_entry where
  "twin_entry = \<lparr> cmp_address = PStr ''sei1abc'', cmp_whale_score = 7 / 10,
     cmp_risk_factor = 1 / 2, cmp_influence_score = 1 / 10,
     cmp_classification = ''Large Holder'', cmp_balance = 5000000, cmp_tx_count = 0 \<rparr>"

text \<open>A network on which every fetch of an account fails.\<close>

definition offline_network :: sei_network where
  "offline_network = \<lparr> get_account_info = (\<lambda>a. Inl ''All Sei endpoints failed''),
                        get_transactions = (\<lambda>a. []) \<rparr>"

definition mixed_txs :: "pyval list" where
  "mixed_txs = [PDict [(''amount'', PNum 5), (''type'', PStr ''Staking'')],
                PDict [(''amount'', PNum 1), (''type'', PStr ''incoming'')],
                PDict [(''amount'', PNum 2), (''type'', PStr ''outgoing'')]]"

definition mixed_metrics :: sei_metrics where
  "mixed_metrics = \<lparr> staking_amount = 5, defi_participation = False,
     sei_network_score = 7 / 10, estimated_rewards = 34 / 100, validator_interactions = 1 \<rparr>"

definition mixed_stats :: pattern_stats where
  "mixed_stats = \<lparr> primary_pattern = ''regular_user'', pattern_transaction_count = 3,
     average_amount = 8 / 3, median_amount = 2, max_amount = 5, incoming_ratio = 1 / 3,
     outgoing_ratio = 1 / 3, patterns = [''regular_user''] \<rparr>"

section \<open>Properties\<close>

subsection \<open>Auxiliary facts\<close>

lemma ebind_Inr_iff: "ebind m f = Inr y \<longleftrightarrow> (\<exists>x. m = Inr x \<and> f x = Inr y)"
  by (cases m) (simp_all add: ebind_def)

lemma ebind_Inr [simp]: "ebind (Inr x) f = f x"
  by (simp add: ebind_def)

lemma ebind_Inl [simp]: "ebind (Inl e) f = Inl e"
  by (simp add: ebind_def)

text \<open>Evaluating the rounding to a double, and the whale score of the balances used
  below.\<close>

lemma normalize_numeral:
  "normalize (numeral k) y s =
     (if y < 4503599627370496 then normalize (pred_numeral k) (y * 2) (s * 2)
      else if 9007199254740992 \<le> y then normalize (pred_numeral k) (y / 2) (s / 2)
      else (y, s))"
  by (simp add: numeral_eq_Suc)

lemmas fl_eval = fl_def normalize_numeral round_half_even_def

lemma whale_score_at:
  "calculate_whale_score 0 t = Inr 0"
  "calculate_whale_score 3 default_total_supply = Inr (1 / 10)"
  "calculate_whale_score 5000000 default_total_supply = Inr (7 / 10)"
  "calculate_whale_score 50000000 default_total_supply = Inr (9 / 10)"
  by (simp_all add: calculate_whale_score_def default_total_supply_def py_div_def fl_eval)

lemmas eval_defs =
  analyze_wallet_def whale_score_at calculate_influence_score_def
  calculate_risk_factor_def analyze_transaction_patterns_def get_sei_specific_metrics_def
  py_div_def py_mean_def py_max_def py_min_def py_median_def
  amount_of_def set_add_def is_staking_tx_def is_defi_tx_def type_is_def is_large_tx_def
  inflation_rate_def reject_all_def lower_char_def

text \<open>A successful run of \<open>analyze_wallet\<close> went through every step.\<close>

lemma analyze_wallet_Inr:
  assumes "analyze_wallet pf rnd now wd = Inr r"
  obtains a bv balance transactions w rf i ps sm n share txs senders large where
    "py_get wd ''address'' (PStr ''unknown'') = Inr a"
    "py_get wd ''balance'' (PNum 0) = Inr bv"
    "py_float pf bv = Inr balance"
    "py_get wd ''transactions'' (PList []) = Inr transactions"
    "calculate_whale_score balance default_total_supply = Inr w"
    "calculate_risk_factor pf transactions balance = Inr rf"
    "calculate_influence_score pf transactions balance = Inr i"
    "analyze_transaction_patterns pf transactions = Inr ps"
    "get_sei_specific_metrics pf a transactions = Inr sm"
    "py_len transactions = Inr n"
    "py_div balance 10000000000 = Inr share"
    "py_iter transactions = Inr txs"
    "from_set txs {} = Inr senders"
    "anyM (is_large_tx pf balance) txs = Inr large"
    "r = wallet_result rnd now a balance n w rf i ps sm share senders large"
  using assms unfolding analyze_wallet_def ebind_Inr_iff by blast

lemma wallet_result_clock:
  "wallet_result rnd now a b n w rf i ps sm sh se l
   = (wallet_result rnd t0 a b n w rf i ps sm sh se l)\<lparr>analysis_timestamp := now\<rparr>"
  by (simp add: wallet_result_def Let_def)

lemma analyze_wallet_clock:
  "analyze_wallet pf rnd now wd
   = map_sum id (\<lambda>r. r\<lparr>analysis_timestamp := now\<rparr>) (analyze_wallet pf rnd t0 wd)"
  unfolding analyze_wallet_def
  by (simp add: ebind_def wallet_result_clock [of rnd now _ _ _ _ _ _ _ _ _ _ _ t0]
      split: sum.splits)

text \<open>The whale score takes one of seven values.\<close>

lemma whale_score_values:
  "calculate_whale_score b t = Inr w \<Longrightarrow> w \<in> {0, 1 / 10, 3 / 10, 5 / 10, 7 / 10, 9 / 10, 1}"
  by (auto simp: calculate_whale_score_def py_div_def Let_def split: if_splits)

text \<open>The rounding of an exact real to decimals is a rounding.\<close>

lemma round_half_even_near: "\<bar>real_of_int (round_half_even y) - y\<bar> \<le> 1 / 2"
  unfolding round_half_even_def Let_def by (auto simp: abs_if) linarith+

lemma round_half_even_int: "y \<in> \<int> \<Longrightarrow> real_of_int (round_half_even y) = y"
  unfolding round_half_even_def Let_def by (auto elim!: Ints_cases)

lemma decimal_round_rounds: "rounds_to_decimals decimal_round"
  unfolding rounds_to_decimals_def
proof (intro allI conjI impI)
  fix x :: real and n :: nat
  have "\<bar>real_of_int (round_half_even (x * 10 ^ n)) - x * 10 ^ n\<bar> \<le> 1 / 2"
    by (rule round_half_even_near)
  then have "\<bar>real_of_int (round_half_even (x * 10 ^ n)) - x * 10 ^ n\<bar> / 10 ^ n
      \<le> (1 / 2) / 10 ^ n"
    by (rule divide_right_mono) simp
  moreover have "decimal_round x n - x
      = (real_of_int (round_half_even (x * 10 ^ n)) - x * 10 ^ n) / 10 ^ n"
    by (simp add: decimal_round_def diff_divide_distrib)
  then have "\<bar>real_of_int (round_half_even (x * 10 ^ n)) - x * 10 ^ n\<bar> / 10 ^ n
      = \<bar>decimal_round x n - x\<bar>"
    by (simp only: abs_divide) simp
  ultimately show "\<bar>decimal_round x n - x\<bar> \<le> 1 / (2 * 10 ^ n)"
    by simp
next
  fix x :: real and n :: nat
  assume "x * 10 ^ n \<in> \<int>"
  then show "decimal_round x n = x"
    by (simp add: decimal_round_def round_half_even_int)
qed

text \<open>The three concrete wallets, evaluated.\<close>

lemma scenario_eval:
  "analyze_wallet reject_all rnd ''t'' scenario_wallet
   = Inr (wallet_result rnd ''t'' (PStr ''sei1abc'') 5000000 0 (7 / 10) (1 / 2) (1 / 10)
            NoActivity no_staking (1 / 2000) {} False)"
  by (simp add: eval_defs scenario_wallet_def no_staking_def)

lemma small_eval:
  "analyze_wallet reject_all rnd ''t'' small_wallet
   = Inr (wallet_result rnd ''t'' (PStr ''sei1abc'') 3 1 (1 / 10) (17 / 30) (409 / 30000)
            one_regular_tx no_staking (3 / 10000000000) {PStr []} False)"
  by (simp add: eval_defs small_wallet_def no_staking_def one_regular_tx_def)

lemma staker_eval:
  "analyze_wallet reject_all rnd ''t'' staker_wallet
   = Inr (wallet_result rnd ''t'' (PStr ''sei1abc'') 3 1 (1 / 10) (17 / 30) (409 / 30000)
            one_regular_tx one_staking (3 / 10000000000) {PStr []} False)"
  by (simp add: eval_defs staker_wallet_def one_staking_def one_regular_tx_def)

lemma py_div_Inr: "py_div a b = Inr q \<Longrightarrow> q = a / b"
  by (simp add: py_div_def split: if_splits)

lemma mapM_length: "mapM f xs = Inr ys \<Longrightarrow> length ys = length xs"
  by (induction xs arbitrary: ys) (auto simp: ebind_Inr_iff)

lemma filterM_Inr:
  "filterM p xs = Inr ys \<Longrightarrow> ys = filter (\<lambda>x. p x = Inr True) xs"
proof (induction xs arbitrary: ys)
  case Nil
  then show ?case by simp
next
  case (Cons x xs)
  from Cons.prems obtain b zs where
    b: "p x = Inr b" and zs: "filterM p xs = Inr zs" and ys: "ys = (if b then x # zs else zs)"
    unfolding filterM.simps ebind_Inr_iff by blast
  have "zs = filter (\<lambda>x. p x = Inr True) xs" using zs by (rule Cons.IH)
  with b ys show ?case by simp
qed

text \<open>What the loop over \<^verbatim>\<open>'from'\<close> and \<^verbatim>\<open>'to'\<close> collects.\<close>

lemma py_hashable_set_key: "py_hashable v = Inr k \<Longrightarrow> k = set_key v"
  by (cases v) auto

lemma add_if_present_Inr:
  "add_if_present key tx s = Inr s' \<Longrightarrow>
   s' = s \<union> set (map set_key (field_values [key] tx))"
  by (cases tx) (auto simp: field_values_def List.map_filter_def set_add_def ebind_Inr_iff
      dest: py_hashable_set_key split: option.splits)

lemma field_values_from_to:
  "set (field_values [''from'', ''to''] tx)
   = set (field_values [''from''] tx) \<union> set (field_values [''to''] tx)"
  by (cases tx) (auto simp: field_values_def List.map_filter_def)

lemma collect_from_to_Inr:
  "collect_from_to txs s = Inr c \<Longrightarrow> c = s \<union> counterparties_of [''from'', ''to''] txs"
proof (induction txs arbitrary: s)
  case Nil
  then show ?case by (simp add: counterparties_of_def)
next
  case (Cons tx txs)
  from Cons.prems obtain s1 s2 where
    s1: "add_if_present ''from'' tx s = Inr s1" and
    s2: "add_if_present ''to'' tx s1 = Inr s2" and
    c: "collect_from_to txs s2 = Inr c"
    by (auto simp: ebind_Inr_iff)
  have "s2 = s \<union> set (map set_key (field_values [''from'', ''to''] tx))"
    using add_if_present_Inr [OF s1] add_if_present_Inr [OF s2]
    by (auto simp: field_values_from_to)
  with Cons.IH [OF c] show ?case
    by (auto simp: counterparties_of_def)
qed

lemma py_max_Max: "amounts \<noteq> [] \<Longrightarrow> py_max amounts = Inr (Max (set amounts))"
  by (cases amounts) (simp_all only: py_max_def list.case Max.set_eq_fold, simp)

text \<open>The address plays no part in the analysis.\<close>

lemma sei_metrics_ignore_address:
  "get_sei_specific_metrics pf a t = get_sei_specific_metrics pf a' t"
  by (simp add: get_sei_specific_metrics_def)

lemma wallet_result_address:
  "wallet_result rnd now a b n w rf i ps sm sh se l
   = (wallet_result rnd now a' b n w rf i ps sm sh se l)\<lparr>address := a\<rparr>"
  by (simp add: wallet_result_def Let_def)

lemma analyze_wallet_address:
  "analyze_wallet pf rnd now (PDict ((''address'', a) # kvs))
   = map_sum id (\<lambda>r. r\<lparr>address := a\<rparr>)
       (analyze_wallet pf rnd now (PDict ((''address'', a') # kvs)))"
  unfolding analyze_wallet_def
  by (simp add: ebind_def sei_metrics_ignore_address [of pf a _ a']
      wallet_result_address [of rnd now a _ _ _ _ _ _ _ _ _ _ a'] split: sum.splits)

lemma analyze_wallet_missing_address:
  "map_of kvs ''address'' = None \<Longrightarrow>
   analyze_wallet pf rnd now (PDict kvs)
   = analyze_wallet pf rnd now (PDict ((''address'', PStr ''unknown'') # kvs))"
  unfolding analyze_wallet_def by simp

text \<open>The standard deviation against the threshold, and a successful comparison.\<close>

lemma sqrt_lt_tenth: "sqrt x < 1 / 10 \<longleftrightarrow> x < 1 / 100"
proof -
  have "sqrt (1 / 100) = 1 / 10" by (simp add: real_sqrt_divide)
  then show ?thesis by (metis real_sqrt_less_iff)
qed

lemma sqrt_lt_tenth': "sqrt x * 10 < 1 \<longleftrightarrow> x * 100 < 1"
  using sqrt_lt_tenth [of x] by simp

lemma py_stdev_Inr:
  "py_stdev stdev xs = Inr sd \<Longrightarrow> 2 \<le> length xs \<and> sd = stdev xs"
  by (simp add: py_stdev_def split: if_splits)

lemma sum_list_constant:
  "\<forall>x \<in> set xs. x = a \<Longrightarrow> sum_list xs = real (length xs) * (a :: real)"
  by (induction xs) (simp_all add: algebra_simps)

lemma sum_sq_dev_constant:
  assumes "\<forall>x \<in> set xs. x = a" "xs \<noteq> []"
  shows "sum_sq_dev xs = 0"
proof -
  have "sum_list xs / real (length xs) = a"
    using assms by (simp add: sum_list_constant)
  moreover have "sum_list (map (\<lambda>x. (x - a)\<^sup>2) xs) = 0"
    using assms(1) by (induction xs) simp_all
  ultimately show ?thesis by (simp add: sum_sq_dev_def)
qed

lemma compare_addresses_Inr:
  assumes "compare_addresses pf rnd stdev now d = Inr (Comparison c)"
  obtains n comparisons hw hr aw ar sd where
    "py_stdev stdev (map cmp_whale_score comparisons) = Inr sd"
    "c = comparison_result rnd n comparisons hw hr aw ar sd"
proof -
  from assms obtain addresses n where
    rest: "(if n < 2 then Inr (ErrorDict ''At least 2 addresses required for comparison'')
     else
       ebind (py_iter addresses) (\<lambda>addrs.
       ebind (mapM (compare_entry pf rnd now) addrs) (\<lambda>comparisons.
       ebind (py_max (map cmp_whale_score comparisons)) (\<lambda>hw.
       ebind (py_max (map cmp_risk_factor comparisons)) (\<lambda>hr.
       ebind (py_mean (map cmp_whale_score comparisons)) (\<lambda>aw.
       ebind (py_mean (map cmp_risk_factor comparisons)) (\<lambda>ar.
       ebind (py_stdev stdev (map cmp_whale_score comparisons)) (\<lambda>sd.
       Inr (Comparison (comparison_result rnd n comparisons hw hr aw ar sd))))))))))
     = Inr (Comparison c)"
    unfolding compare_addresses_def ebind_Inr_iff by blast
  have "\<not> n < 2" using rest by (cases "n < 2") simp_all
  with rest have "ebind (py_iter addresses) (\<lambda>addrs.
       ebind (mapM (compare_entry pf rnd now) addrs) (\<lambda>comparisons.
       ebind (py_max (map cmp_whale_score comparisons)) (\<lambda>hw.
       ebind (py_max (map cmp_risk_factor comparisons)) (\<lambda>hr.
       ebind (py_mean (map cmp_whale_score comparisons)) (\<lambda>aw.
       ebind (py_mean (map cmp_risk_factor comparisons)) (\<lambda>ar.
       ebind (py_stdev stdev (map cmp_whale_score comparisons)) (\<lambda>sd.
       Inr (Comparison (comparison_result rnd n comparisons hw hr aw ar sd)))))))))
     = Inr (Comparison c)"
    by (simp only: if_False)
  then show ?thesis
    using that unfolding ebind_Inr_iff by auto
qed

lemmas compare_defs =
  compare_addresses_def compare_entry_def comparison_result_def py_stdev_def
  sample_stdev_def sum_sq_dev_def sqrt_lt_tenth' power2_eq_square

lemma three_wallets_eval:
  "connections_of (compare_addresses reject_all decimal_round sample_stdev ''t'' three_wallets)
     = Some ''No obvious connections''
   \<and> whale_scores_of (compare_addresses reject_all decimal_round sample_stdev ''t'' three_wallets)
     = [7 / 10, 7 / 10, 9 / 10]"
  by (simp add: three_wallets_def eval_defs compare_defs wallet_result_def
      decimal_round_def round_half_even_def triggered_def)

lemma twin_wallets_eval:
  "compare_addresses reject_all decimal_round sample_stdev ''t'' twin_wallets
   = Inr (Comparison (comparison_result decimal_round 2 [twin_entry, twin_entry] (7 / 10) (1 / 2)
            (7 / 10) (1 / 2) 0))"
  by (simp add: twin_wallets_def scenario_wallet_def twin_entry_def eval_defs
      compare_addresses_def compare_entry_def py_stdev_def sample_stdev_def sum_sq_dev_def
      wallet_result_def decimal_round_def round_half_even_def numeral_2_eq_2)

text \<open>Staking transactions and transactions with a direction.\<close>

lemma staking_not_direction:
  assumes "is_staking_tx tx = Inr True"
  shows "type_is ''incoming'' tx = Inr False \<and> type_is ''outgoing'' tx = Inr False"
proof (cases tx)
  case (PDict kvs)
  show ?thesis
  proof (cases "map_of kvs ''type''")
    case None
    with PDict assms show ?thesis by (simp add: is_staking_tx_def type_is_def)
  next
    case (Some t)
    have "\<not> str_contains ''staking'' (map lower_char ''incoming'')"
      "\<not> str_contains ''staking'' (map lower_char ''outgoing'')"
      by (simp_all add: lower_char_def)
    with Some PDict assms show ?thesis
      by (cases t) (auto simp: is_staking_tx_def type_is_def)
  qed
qed (use assms in \<open>simp_all add: is_staking_tx_def\<close>)

lemma sei_metrics_Inr:
  assumes "get_sei_specific_metrics pf a (PList txs) = Inr sm"
  obtains staking_txs amounts where
    "filterM is_staking_tx txs = Inr staking_txs"
    "mapM (amount_of pf) staking_txs = Inr amounts"
    "staking_amount sm = sum_list amounts"
    "validator_interactions sm = length staking_txs"
  using assms unfolding get_sei_specific_metrics_def
  by (auto simp: ebind_Inr_iff Let_def)

lemma patterns_Inr:
  assumes "analyze_transaction_patterns pf (PList txs) = Inr (Patterns ps)"
  obtains incoming_txs outgoing_txs where
    "filterM (type_is ''incoming'') txs = Inr incoming_txs"
    "filterM (type_is ''outgoing'') txs = Inr outgoing_txs"
    "incoming_ratio ps = real (length incoming_txs) / real (max (length txs) 1)"
    "outgoing_ratio ps = real (length outgoing_txs) / real (max (length txs) 1)"
proof (cases "txs = []")
  case True
  with assms show ?thesis by (simp add: analyze_transaction_patterns_def)
next
  case False
  with assms have "\<exists>incoming_txs outgoing_txs.
    filterM (type_is ''incoming'') txs = Inr incoming_txs \<and>
    filterM (type_is ''outgoing'') txs = Inr outgoing_txs \<and>
    py_div (real (length incoming_txs)) (real (max (length txs) 1))
      = Inr (incoming_ratio ps) \<and>
    py_div (real (length outgoing_txs)) (real (max (length txs) 1))
      = Inr (outgoing_ratio ps)"
    unfolding analyze_transaction_patterns_def Let_def
    by (auto simp: ebind_Inr_iff split: prod.splits)
  then show ?thesis using that by (blast dest: py_div_Inr)
qed

lemma mixed_eval:
  "get_sei_specific_metrics reject_all PNone (PList mixed_txs) = Inr mixed_metrics"
  "analyze_transaction_patterns reject_all (PList mixed_txs) = Inr (Patterns mixed_stats)"
  by (simp_all add: eval_defs mixed_txs_def mixed_metrics_def mixed_stats_def)

subsection \<open>Verified properties\<close>

text \<open>
  C1. Specified: for a non-empty transaction list and balance 0 the influence score guards
  the division by the balance (volume term 0, a result in \<open>[0, 1]\<close>, no division
  error). The code divides \<^verbatim>\<open>total_volume / (balance * 10)\<close> unguarded: for the wallet with balance 0
  and the single transaction of amount 1 both \<^verbatim>\<open>calculate_influence_score\<close> and the
  tool \<^verbatim>\<open>analyze_wallet\<close> raise \<^verbatim>\<open>ZeroDivisionError\<close>.
\<close>

theorem influence_score_zero_balance_raises:
  "calculate_influence_score pf (PList [PDict [(''amount'', PNum 1)]]) 0
     = Inl ZeroDivisionError
   \<and> analyze_wallet pf rnd now
       (PDict [(''address'', PStr ''sei1abc''), (''balance'', PNum 0),
               (''transactions'', PList [PDict [(''amount'', PNum 1)]])])
     = Inl ZeroDivisionError"
  by (simp add: eval_defs)

text \<open>
  C2, as specified: scoring the same snapshot twice yields identical results. The result
  carries \<open>analysis_timestamp\<close>, the reading of the wall clock, so two calls on the same
  wallet at different clock readings return different results.
\<close>

theorem analyze_wallet_timestamp_counterexample:
  "analyze_wallet reject_all decimal_round ''2026-11-03T10:00:00'' scenario_wallet
   \<noteq> analyze_wallet reject_all decimal_round ''2026-11-03T10:00:01'' scenario_wallet"
  by (simp add: eval_defs scenario_wallet_def wallet_result_def)

text \<open>
  C2, as implemented: for every wallet dictionary, two calls of \<open>analyze_wallet\<close> (at any two
  clock readings) raise the same exception or return results that are equal in every field
  other than \<open>analysis_timestamp\<close>.
\<close>

theorem analyze_wallet_differs_only_in_timestamp:
  "map_sum id (\<lambda>r. r\<lparr>analysis_timestamp := []\<rparr>) (analyze_wallet pf rnd t1 wd)
   = map_sum id (\<lambda>r. r\<lparr>analysis_timestamp := []\<rparr>) (analyze_wallet pf rnd t2 wd)"
  by (subst analyze_wallet_clock [of pf rnd t1 wd t2]) (cases "analyze_wallet pf rnd t2 wd"; simp)

text \<open>
  C3. Specified: the whale score is the step function of
  \<open>percentage_of_supply = balance / total_supply * 100\<close>, and a percentage \<open>\<ge> 0.0001\<close>
  (below 0.001) gives 0.3. For the balance 10,000 of the supply 10,000,000,000 the
  percentage is exactly 0.0001, and the code returns 0.1: the quotient and the product are
  rounded to doubles, and the double product lies below the double 0.0001. At the four other
  breakpoints the code returns the score of the breakpoint.
\<close>

theorem whale_score_breakpoint_missed:
  "(10000 / 10000000000 * 100 :: real) = 1 / 10000
   \<and> calculate_whale_score 10000 10000000000 = Inr (1 / 10)
   \<and> calculate_whale_score 100000 10000000000 = Inr (5 / 10)
   \<and> calculate_whale_score 1000000 10000000000 = Inr (7 / 10)
   \<and> calculate_whale_score 10000000 10000000000 = Inr (9 / 10)
   \<and> calculate_whale_score 100000000 10000000000 = Inr 1"
  by (simp add: calculate_whale_score_def py_div_def fl_eval)

text \<open>
  C4, as specified: the overall score of the analysis equals exactly
  \<open>whale_score * 0.3 + (1 - risk_factor) * 0.3 + influence_score * 0.4\<close>. For the wallet
  with balance 3 and one transaction of amount 1 the three scores are \<open>1/10\<close>, \<open>17/30\<close>
  and \<open>409/30000\<close>; the analysis reports them as 0.1, 0.567 and 0.014 and the overall score
  as 0.165, which is neither the weighted sum of the scores nor that of the reported ones.
  (None of the four values is halfway between two numbers of three decimals, so every
  rounding to three decimals reports these numbers.)
\<close>

theorem overall_score_counterexample:
  "map_sum id scores (analyze_wallet reject_all decimal_round ''t'' small_wallet)
     = Inr \<lparr> whale_score = 1 / 10, risk_factor = 567 / 1000, influence_score = 14 / 1000,
             overall_score = 165 / 1000, scores_sei_network_score = 1 / 2 \<rparr>
   \<and> calculate_whale_score 3 default_total_supply = Inr (1 / 10)
   \<and> calculate_risk_factor reject_all (PList [PDict [(''amount'', PNum 1)]]) 3 = Inr (17 / 30)
   \<and> calculate_influence_score reject_all (PList [PDict [(''amount'', PNum 1)]]) 3
       = Inr (409 / 30000)
   \<and> (165 / 1000 :: real)
       \<noteq> (1 / 10) * (3 / 10) + (1 - 17 / 30) * (3 / 10) + (409 / 30000) * (4 / 10)
   \<and> (165 / 1000 :: real)
       \<noteq> (1 / 10) * (3 / 10) + (1 - 567 / 1000) * (3 / 10) + (14 / 1000) * (4 / 10)"
  by (simp add: small_eval wallet_result_def decimal_round_def round_half_even_def
      no_staking_def)
     (simp add: eval_defs)

text \<open>
  C4, as implemented: whenever \<open>analyze_wallet\<close> returns an analysis, its overall score is
  what \<^verbatim>\<open>round(..., 3)\<close> returns for the weighted sum
  \<open>whale_score * 0.3 + (1 - risk_factor) * 0.3 + influence_score * 0.4\<close> of the three
  scores as the calculations return them, and the three scores are reported through the same
  rounding. For every rounding to decimals the reported overall score is within 0.0005 of
  the weighted sum, and equal to it when the sum has at most three decimals: for balance
  5,000,000 and no transactions the scores are 0.7, 0.5, 0.1 and the overall score is 0.4.
\<close>

theorem overall_score_rounded_weighted_sum:
  fixes w rf i :: real
  defines "weighted_sum \<equiv> w * (3 / 10) + (1 - rf) * (3 / 10) + i * (4 / 10)"
  assumes "analyze_wallet pf rnd now wd = Inr r"
    and "py_get wd ''balance'' (PNum 0) = Inr bv"
    and "py_float pf bv = Inr balance"
    and "py_get wd ''transactions'' (PList []) = Inr transactions"
    and "calculate_whale_score balance default_total_supply = Inr w"
    and "calculate_risk_factor pf transactions balance = Inr rf"
    and "calculate_influence_score pf transactions balance = Inr i"
  shows "overall_score (scores r) = rnd weighted_sum 3
         \<and> whale_score (scores r) = rnd w 3
         \<and> risk_factor (scores r) = rnd rf 3
         \<and> influence_score (scores r) = rnd i 3
         \<and> (rounds_to_decimals rnd \<longrightarrow>
              \<bar>overall_score (scores r) - weighted_sum\<bar> \<le> 1 / 2000
              \<and> (weighted_sum * 1000 \<in> \<int> \<longrightarrow> overall_score (scores r) = weighted_sum))"
proof -
  from assms(2) obtain a n ps sm share senders large where
    "r = wallet_result rnd now a balance n w rf i ps sm share senders large"
    by (rule analyze_wallet_Inr) (use assms(3-) in simp)
  then have reported: "overall_score (scores r) = rnd weighted_sum 3"
    "whale_score (scores r) = rnd w 3" "risk_factor (scores r) = rnd rf 3"
    "influence_score (scores r) = rnd i 3"
    by (simp_all add: wallet_result_def Let_def weighted_sum_def)
  have "\<bar>rnd weighted_sum 3 - weighted_sum\<bar> \<le> 1 / 2000
      \<and> (weighted_sum * 1000 \<in> \<int> \<longrightarrow> rnd weighted_sum 3 = weighted_sum)"
    if "rounds_to_decimals rnd"
    using that [unfolded rounds_to_decimals_def, rule_format, of weighted_sum 3] by simp
  with reported show ?thesis by simp
qed

theorem overall_score_rounded_weighted_sum_witness:
  "analyze_wallet reject_all decimal_round ''t'' scenario_wallet
     = Inr (wallet_result decimal_round ''t'' (PStr ''sei1abc'') 5000000 0 (7 / 10) (1 / 2)
              (1 / 10) NoActivity no_staking (1 / 2000) {} False)
   \<and> py_get scenario_wallet ''balance'' (PNum 0) = Inr (PNum 5000000)
   \<and> py_float reject_all (PNum 5000000) = Inr 5000000
   \<and> py_get scenario_wallet ''transactions'' (PList []) = Inr (PList [])
   \<and> calculate_whale_score 5000000 default_total_supply = Inr (7 / 10)
   \<and> calculate_risk_factor reject_all (PList []) 5000000 = Inr (1 / 2)
   \<and> calculate_influence_score reject_all (PList []) 5000000 = Inr (1 / 10)
   \<and> (7 / 10 * (3 / 10) + (1 - 1 / 2) * (3 / 10) + 1 / 10 * (4 / 10)) * 1000 = (400 :: real)
   \<and> overall_score (scores (wallet_result decimal_round ''t'' (PStr ''sei1abc'') 5000000 0
        (7 / 10) (1 / 2) (1 / 10) NoActivity no_staking (1 / 2000) {} False)) = 4 / 10
   \<and> whale_score (scores (wallet_result decimal_round ''t'' (PStr ''sei1abc'') 5000000 0
        (7 / 10) (1 / 2) (1 / 10) NoActivity no_staking (1 / 2000) {} False)) = 7 / 10
   \<and> risk_factor (scores (wallet_result decimal_round ''t'' (PStr ''sei1abc'') 5000000 0
        (7 / 10) (1 / 2) (1 / 10) NoActivity no_staking (1 / 2000) {} False)) = 5 / 10
   \<and> influence_score (scores (wallet_result decimal_round ''t'' (PStr ''sei1abc'') 5000000 0
        (7 / 10) (1 / 2) (1 / 10) NoActivity no_staking (1 / 2000) {} False)) = 1 / 10"
proof -
  have h2: "py_get scenario_wallet ''balance'' (PNum 0) = Inr (PNum 5000000)"
    and h3: "py_float reject_all (PNum 5000000) = Inr 5000000"
    and h4: "py_get scenario_wallet ''transactions'' (PList []) = Inr (PList [])"
    and h5: "calculate_whale_score 5000000 default_total_supply = Inr (7 / 10)"
    and h6: "calculate_risk_factor reject_all (PList []) 5000000 = Inr (1 / 2)"
    and h7: "calculate_influence_score reject_all (PList []) 5000000 = Inr (1 / 10)"
    by (simp_all add: eval_defs scenario_wallet_def)
  have s: "(7 / 10 * (3 / 10) + (1 - 1 / 2) * (3 / 10) + 1 / 10 * (4 / 10)) * 1000
      = (400 :: real)"
    by simp
  then have z: "(7 / 10 * (3 / 10) + (1 - 1 / 2) * (3 / 10) + 1 / 10 * (4 / 10)) * 1000
      \<in> (\<int> :: real set)"
    by (simp only: Ints_numeral)
  have d: "decimal_round (7 / 10) 3 = 7 / 10" "decimal_round (1 / 2) 3 = 5 / 10"
    "decimal_round (1 / 10) 3 = 1 / 10"
    by (simp_all add: decimal_round_def round_half_even_def)
  note e = scenario_eval [where rnd = decimal_round]
  from overall_score_rounded_weighted_sum [OF e h2 h3 h4 h5 h6 h7]
    decimal_round_rounds z
  have "overall_score (scores (wallet_result decimal_round ''t'' (PStr ''sei1abc'') 5000000 0
        (7 / 10) (1 / 2) (1 / 10) NoActivity no_staking (1 / 2000) {} False)) = 4 / 10"
    "whale_score (scores (wallet_result decimal_round ''t'' (PStr ''sei1abc'') 5000000 0
        (7 / 10) (1 / 2) (1 / 10) NoActivity no_staking (1 / 2000) {} False)) = 7 / 10"
    "risk_factor (scores (wallet_result decimal_round ''t'' (PStr ''sei1abc'') 5000000 0
        (7 / 10) (1 / 2) (1 / 10) NoActivity no_staking (1 / 2000) {} False)) = 5 / 10"
    "influence_score (scores (wallet_result decimal_round ''t'' (PStr ''sei1abc'') 5000000 0
        (7 / 10) (1 / 2) (1 / 10) NoActivity no_staking (1 / 2000) {} False)) = 1 / 10"
    by (simp_all add: d)
  with e h2 h3 h4 h5 h6 h7 s show ?thesis by simp
qed

text \<open>
  C5, as specified: the counterparties of the diversity sub-score are the union of the
  \<open>from\<close>/\<open>to\<close> (or \<open>counterparty\<close>) fields. For the single transaction that names
  its counterparty in a \<open>counterparty\<close> field, with balance 100, the code finds no
  counterparty (ratio 0, sub-score 0.8) and returns \<open>7/15\<close>; with the \<open>counterparty\<close>
  field counted there is one counterparty (ratio 1, sub-score 0.3) and the mean is 0.3.
\<close>

theorem risk_factor_counterparty_counterexample:
  "calculate_risk_factor reject_all (PList [counterparty_only_tx]) 100 = Inr (7 / 15)
   \<and> mapM (amount_of reject_all) [counterparty_only_tx] = Inr [1]
   \<and> counterparties_of [''from'', ''to'', ''counterparty''] [counterparty_only_tx]
       = {PStr ''sei1xyz''}
   \<and> risk_formula [''from'', ''to'', ''counterparty''] [counterparty_only_tx] [1] 100 = 3 / 10"
  by (simp add: eval_defs counterparty_only_tx_def risk_formula_def counterparties_of_def
      field_values_def List.map_filter_def frequency_subscore_def concentration_subscore_def
      diversity_subscore_def)

text \<open>
  C5, as implemented: the risk factor of an empty list is exactly 0.5 for any balance; for a
  non-empty list whose amounts are readable and whose \<open>from\<close>/\<open>to\<close> values are hashable
  it is the arithmetic mean, clamped to \<open>\<le> 1\<close>, of the frequency sub-score (count \<open>> 1000\<close>
  gives 0.8, \<open>> 100\<close> gives 0.6, else 0.3), the amount sub-score (largest amount
  \<open>> 0.5 * balance\<close> gives 0.7, else mean amount \<open>> 0.1 * balance\<close> gives 0.6, else 0.3)
  and the diversity sub-score (ratio \<open>< 0.1\<close> gives 0.8, \<open>< 0.3\<close> gives 0.6, else 0.3) over
  the distinct values of the \<open>from\<close> and \<open>to\<close> fields only.
\<close>

theorem risk_factor_formula:
  "calculate_risk_factor pf (PList []) balance = Inr (5 / 10)
   \<and> (txs \<noteq> [] \<and> mapM (amount_of pf) txs = Inr amounts
        \<and> collect_from_to txs {} = Inr unique_counterparties \<longrightarrow>
        unique_counterparties = counterparties_of [''from'', ''to''] txs
        \<and> calculate_risk_factor pf (PList txs) balance
            = Inr (risk_formula [''from'', ''to''] txs amounts balance))"
proof (intro conjI impI)
  show "calculate_risk_factor pf (PList []) balance = Inr (5 / 10)"
    by (simp add: calculate_risk_factor_def)
next
  assume a: "txs \<noteq> [] \<and> mapM (amount_of pf) txs = Inr amounts
        \<and> collect_from_to txs {} = Inr unique_counterparties"
  then have ne: "amounts \<noteq> []" using mapM_length by fastforce
  have pm: "py_mean amounts = Inr (sum_list amounts / real (length amounts))"
    using ne by (simp add: py_mean_def)
  have px: "py_max amounts = Inr (Max (set amounts))"
    using ne by (rule py_max_Max)
  have conc: "concentration_subscore amounts balance
      = (if Max (set amounts) > balance * (5 / 10) then 7 / 10
         else if sum_list amounts / real (length amounts) > balance * (1 / 10) then 6 / 10
         else 3 / 10)"
    unfolding concentration_subscore_def by (simp only: mult.commute [of balance])
  from a have len: "length txs \<ge> 1" by (cases txs) auto
  then have mx: "max (length txs) 1 = length txs" by (rule max_absorb1)
  from len have ratio:
    "py_div (real (card unique_counterparties)) (real (max (length txs) 1))
     = Inr (real (card unique_counterparties) / real (length txs))"
    unfolding mx using a by (simp add: py_div_def)
  show c: "unique_counterparties = counterparties_of [''from'', ''to''] txs"
    using a collect_from_to_Inr [of txs "{}" unique_counterparties] by simp
  have "calculate_risk_factor pf (PList txs) balance
        = Inr (min ((frequency_subscore (length txs) + concentration_subscore amounts balance
           + diversity_subscore (card unique_counterparties) (length txs)) / 3) 1)"
    using a ne unfolding calculate_risk_factor_def
    by (simp add: pm px ratio ratio [unfolded One_nat_def] conc Let_def py_mean_def
        frequency_subscore_def diversity_subscore_def)
  then show "calculate_risk_factor pf (PList txs) balance
            = Inr (risk_formula [''from'', ''to''] txs amounts balance)"
    by (simp add: risk_formula_def c)
qed

theorem risk_factor_formula_witness:
  "two_sends \<noteq> []
   \<and> mapM (amount_of reject_all) two_sends = Inr [60, 1]
   \<and> collect_from_to two_sends {} = Inr {PStr ''sei1a'', PStr ''sei1b''}
   \<and> counterparties_of [''from'', ''to''] two_sends = {PStr ''sei1a'', PStr ''sei1b''}
   \<and> calculate_risk_factor reject_all (PList two_sends) 100 = Inr (13 / 30)
   \<and> calculate_risk_factor reject_all (PList []) 100 = Inr (5 / 10)"
proof -
  have h: "two_sends \<noteq> [] \<and> mapM (amount_of reject_all) two_sends = Inr [60, 1]
   \<and> collect_from_to two_sends {} = Inr {PStr ''sei1a'', PStr ''sei1b''}"
    by (auto simp: eval_defs two_sends_def)
  have f: "risk_formula [''from'', ''to''] two_sends [60, 1] 100 = 13 / 30"
    by (simp add: two_sends_def risk_formula_def counterparties_of_def
      field_values_def List.map_filter_def frequency_subscore_def concentration_subscore_def
      diversity_subscore_def card_insert_if)
  from risk_factor_formula [of reject_all 100 two_sends "[60, 1]"
      "{PStr ''sei1a'', PStr ''sei1b''}"] h f
  show ?thesis by simp
qed

text \<open>
  C6. For every combination of scores and chain metrics the analysis carries exactly one
  of six labels, the label of the first rule that holds in the order: whale score
  \<open>\<ge> 0.8\<close> gives Whale, whale score \<open>\<ge> 0.5\<close> Large Holder, influence score \<open>\<ge> 0.7\<close>
  Active Trader, DeFi participation DeFi User, staking amount \<open>> 0\<close> Staker, and Regular
  User otherwise. The scores and the chain metrics of an analysis that \<open>analyze_wallet\<close>
  returns are those that the calculations return for the wallet (the scores as computed,
  before they are rounded for the report).
\<close>

theorem classification_precedence:
  "classification (wallet_result rnd now a balance n w rf i ps sm share senders large)
     = classify_spec w i (defi_participation sm) (staking_amount sm)
   \<and> classification (wallet_result rnd now a balance n w rf i ps sm share senders large)
       \<in> {''Whale'', ''Large Holder'', ''Active Trader'', ''DeFi User'', ''Staker'',
           ''Regular User''}
   \<and> sei_specific (wallet_result rnd now a balance n w rf i ps sm share senders large) = sm
   \<and> (analyze_wallet pf rnd now wd = Inr r \<longrightarrow>
        (\<exists>a' bv balance' transactions w' rf' i' ps' sm' n' share' senders' large'.
            py_get wd ''address'' (PStr ''unknown'') = Inr a'
          \<and> py_get wd ''balance'' (PNum 0) = Inr bv
          \<and> py_float pf bv = Inr balance'
          \<and> py_get wd ''transactions'' (PList []) = Inr transactions
          \<and> calculate_whale_score balance' default_total_supply = Inr w'
          \<and> calculate_influence_score pf transactions balance' = Inr i'
          \<and> get_sei_specific_metrics pf a' transactions = Inr sm'
          \<and> r = wallet_result rnd now a' balance' n' w' rf' i' ps' sm' share' senders' large'
          \<and> classification r
              = classify_spec w' i' (defi_participation sm') (staking_amount sm')))"
proof -
  have rules: "classification (wallet_result rnd now a balance n w rf i ps sm share senders large)
       = classify_spec w i (defi_participation sm) (staking_amount sm)
     \<and> classification (wallet_result rnd now a balance n w rf i ps sm share senders large)
       \<in> {''Whale'', ''Large Holder'', ''Active Trader'', ''DeFi User'', ''Staker'',
           ''Regular User''}
     \<and> sei_specific (wallet_result rnd now a balance n w rf i ps sm share senders large) = sm"
    for a balance n w rf i ps sm share senders large
    by (simp add: wallet_result_def Let_def classify_spec_def classification_rules_def)
  have "\<exists>a' bv balance' transactions w' rf' i' ps' sm' n' share' senders' large'.
            py_get wd ''address'' (PStr ''unknown'') = Inr a'
          \<and> py_get wd ''balance'' (PNum 0) = Inr bv
          \<and> py_float pf bv = Inr balance'
          \<and> py_get wd ''transactions'' (PList []) = Inr transactions
          \<and> calculate_whale_score balance' default_total_supply = Inr w'
          \<and> calculate_influence_score pf transactions balance' = Inr i'
          \<and> get_sei_specific_metrics pf a' transactions = Inr sm'
          \<and> r = wallet_result rnd now a' balance' n' w' rf' i' ps' sm' share' senders' large'
          \<and> classification r
              = classify_spec w' i' (defi_participation sm') (staking_amount sm')"
    if h: "analyze_wallet pf rnd now wd = Inr r"
  proof -
    from h obtain a' bv balance' transactions w' rf' i' ps' sm' n' share' senders' large'
      where f: "py_get wd ''address'' (PStr ''unknown'') = Inr a'"
        "py_get wd ''balance'' (PNum 0) = Inr bv"
        "py_float pf bv = Inr balance'"
        "py_get wd ''transactions'' (PList []) = Inr transactions"
        "calculate_whale_score balance' default_total_supply = Inr w'"
        "calculate_influence_score pf transactions balance' = Inr i'"
        "get_sei_specific_metrics pf a' transactions = Inr sm'"
        "r = wallet_result rnd now a' balance' n' w' rf' i' ps' sm' share' senders' large'"
      by (rule analyze_wallet_Inr)
    from f(8) rules [of a' balance' n' w' rf' i' ps' sm' share' senders' large']
    have "classification r
        = classify_spec w' i' (defi_participation sm') (staking_amount sm')"
      by simp
    with f show ?thesis by blast
  qed
  with rules show ?thesis by blast
qed

theorem classification_precedence_witness:
  "analyze_wallet reject_all decimal_round ''t'' staker_wallet
     = Inr (wallet_result decimal_round ''t'' (PStr ''sei1abc'') 3 1 (1 / 10) (17 / 30)
              (409 / 30000) one_regular_tx one_staking (3 / 10000000000) {PStr []} False)
   \<and> get_sei_specific_metrics reject_all (PStr ''sei1abc'')
        (PList [PDict [(''amount'', PNum 1), (''type'', PStr ''Staking'')]])
       = Inr one_staking
   \<and> calculate_influence_score reject_all
        (PList [PDict [(''amount'', PNum 1), (''type'', PStr ''Staking'')]]) 3
       = Inr (409 / 30000)
   \<and> calculate_whale_score 3 default_total_supply = Inr (1 / 10)
   \<and> classification (wallet_result decimal_round ''t'' (PStr ''sei1abc'') 3 1 (1 / 10)
        (17 / 30) (409 / 30000) one_regular_tx one_staking (3 / 10000000000) {PStr []} False)
       = ''Staker''
   \<and> classify_spec (1 / 10) (409 / 30000) (defi_participation one_staking)
        (staking_amount one_staking) = ''Staker''"
proof -
  note e = staker_eval [where rnd = decimal_round]
  have m: "get_sei_specific_metrics reject_all (PStr ''sei1abc'')
        (PList [PDict [(''amount'', PNum 1), (''type'', PStr ''Staking'')]])
       = Inr one_staking"
    and i: "calculate_influence_score reject_all
        (PList [PDict [(''amount'', PNum 1), (''type'', PStr ''Staking'')]]) 3
       = Inr (409 / 30000)"
    and w: "calculate_whale_score 3 default_total_supply = Inr (1 / 10)"
    by (simp_all add: eval_defs one_staking_def)
  have c: "classify_spec (1 / 10) (409 / 30000) (defi_participation one_staking)
        (staking_amount one_staking) = ''Staker''"
    by (simp add: classify_spec_def classification_rules_def one_staking_def)
  from classification_precedence [where rnd = decimal_round and now = "''t''"
      and a = "PStr ''sei1abc''" and balance = 3 and n = 1 and w = "1 / 10" and rf = "17 / 30"
      and i = "409 / 30000" and ps = one_regular_tx and sm = one_staking
      and share = "3 / 10000000000" and senders = "{PStr []}" and large = False
      and pf = reject_all and wd = staker_wallet
      and r = "wallet_result decimal_round ''t'' (PStr ''sei1abc'') 3 1 (1 / 10) (17 / 30)
              (409 / 30000) one_regular_tx one_staking (3 / 10000000000) {PStr []} False"]
  have "classification (wallet_result decimal_round ''t'' (PStr ''sei1abc'') 3 1 (1 / 10)
        (17 / 30) (409 / 30000) one_regular_tx one_staking (3 / 10000000000) {PStr []} False)
       = classify_spec (1 / 10) (409 / 30000) (defi_participation one_staking)
           (staking_amount one_staking)"
    by blast
  with e m i w c show ?thesis by simp
qed

text \<open>
  C7, as specified: "manual review recommended" is reported if and only if the population
  standard deviation of the whale scores is below 0.1. For three wallets with whale scores
  0.7, 0.7 and 0.9 the population standard deviation is below 0.1 (about 0.094), the sample
  standard deviation is above it (about 0.115), and the comparison reports "no obvious
  connections".
\<close>

theorem population_stdev_counterexample:
  "whale_scores_of (compare_addresses reject_all decimal_round sample_stdev ''t'' three_wallets)
     = [7 / 10, 7 / 10, 9 / 10]
   \<and> population_stdev [7 / 10, 7 / 10, 9 / 10] < 1 / 10
   \<and> \<not> sample_stdev [7 / 10, 7 / 10, 9 / 10] < 1 / 10
   \<and> connections_of (compare_addresses reject_all decimal_round sample_stdev ''t'' three_wallets)
     = Some ''No obvious connections''"
  using three_wallets_eval
  by (simp add: population_stdev_def sample_stdev_def sum_sq_dev_def sqrt_lt_tenth'
      power2_eq_square)

text \<open>
  C7, as implemented: every comparison that is returned is over at least two analyses, and
  it reports "manual review recommended" if and only if the value that
  \<^verbatim>\<open>statistics.stdev\<close> returns for the whale scores is below 0.1, and "no obvious
  connections" otherwise. That value is the double computed for the sample standard
  deviation (the divisor is \<open>n - 1\<close>): whenever it is closer to the sample standard
  deviation than the sample standard deviation is to 0.1, "manual review recommended" is
  reported if and only if the sample standard deviation is below 0.1. Analyses with
  identical whale scores, for which the library returns a value below 0.1 in absolute value
  (it returns 0), yield "manual review recommended".
\<close>

theorem connections_by_sample_stdev:
  assumes "compare_addresses pf rnd stdev now addressData = Inr (Comparison c)"
    and "whale_scores = map cmp_whale_score (individual_analysis c)"
  shows "2 \<le> length whale_scores
    \<and> (potential_connections (insights c) = ''Manual review recommended''
         \<longleftrightarrow> stdev whale_scores < 1 / 10)
    \<and> (potential_connections (insights c) = ''No obvious connections''
         \<longleftrightarrow> \<not> stdev whale_scores < 1 / 10)
    \<and> (\<bar>stdev whale_scores - sample_stdev whale_scores\<bar>
          < \<bar>sample_stdev whale_scores - 1 / 10\<bar> \<longrightarrow>
         (potential_connections (insights c) = ''Manual review recommended''
           \<longleftrightarrow> sample_stdev whale_scores < 1 / 10))
    \<and> ((\<forall>w \<in> set whale_scores. w = hd whale_scores) \<and> \<bar>stdev whale_scores\<bar> < 1 / 10 \<longrightarrow>
         sample_stdev whale_scores = 0
         \<and> potential_connections (insights c) = ''Manual review recommended'')"
proof -
  from assms(1) obtain n comparisons hw hr aw ar sd where
    sd: "py_stdev stdev (map cmp_whale_score comparisons) = Inr sd" and
    c: "c = comparison_result rnd n comparisons hw hr aw ar sd"
    by (rule compare_addresses_Inr)
  have ws: "whale_scores = map cmp_whale_score comparisons"
    using assms(2) c by (simp add: comparison_result_def)
  from py_stdev_Inr [OF sd] have len: "2 \<le> length whale_scores"
    and sd': "sd = stdev whale_scores"
    by (simp_all add: ws)
  have pc: "potential_connections (insights c)
      = (if stdev whale_scores < 1 / 10 then ''Manual review recommended''
         else ''No obvious connections'')"
    using c sd' by (simp add: comparison_result_def)
  have close: "stdev whale_scores < 1 / 10 \<longleftrightarrow> sample_stdev whale_scores < 1 / 10"
    if "\<bar>stdev whale_scores - sample_stdev whale_scores\<bar>
          < \<bar>sample_stdev whale_scores - 1 / 10\<bar>"
    using that by (auto simp: abs_if split: if_splits)
  have same: "sample_stdev whale_scores = 0"
    if "\<forall>w \<in> set whale_scores. w = hd whale_scores"
  proof -
    from len have "whale_scores \<noteq> []" by auto
    with that have "sum_sq_dev whale_scores = 0" by (rule sum_sq_dev_constant)
    then show ?thesis by (simp add: sample_stdev_def)
  qed
  from len pc close same show ?thesis by (simp add: abs_if)
qed

theorem connections_by_sample_stdev_witness:
  "compare_addresses reject_all decimal_round sample_stdev ''t'' twin_wallets
     = Inr (Comparison (comparison_result decimal_round 2 [twin_entry, twin_entry] (7 / 10)
              (1 / 2) (7 / 10) (1 / 2) 0))
   \<and> [7 / 10, 7 / 10]
     = map cmp_whale_score (individual_analysis
         (comparison_result decimal_round 2 [twin_entry, twin_entry] (7 / 10) (1 / 2)
            (7 / 10) (1 / 2) 0))
   \<and> sample_stdev [7 / 10, 7 / 10] = 0
   \<and> \<bar>sample_stdev [7 / 10, 7 / 10] - sample_stdev [7 / 10, 7 / 10]\<bar>
       < \<bar>sample_stdev [7 / 10, 7 / 10] - 1 / 10\<bar>
   \<and> set [7 / 10, 7 / 10 :: real] = {hd [7 / 10, 7 / 10]}
   \<and> potential_connections (insights
         (comparison_result decimal_round 2 [twin_entry, twin_entry] (7 / 10) (1 / 2)
            (7 / 10) (1 / 2) 0))
     = ''Manual review recommended''"
proof -
  have h: "[7 / 10, 7 / 10]
     = map cmp_whale_score (individual_analysis
         (comparison_result decimal_round 2 [twin_entry, twin_entry] (7 / 10) (1 / 2)
            (7 / 10) (1 / 2) 0))"
    by (simp add: comparison_result_def twin_entry_def)
  have z: "sample_stdev [7 / 10, 7 / 10] = 0"
    by (simp add: sample_stdev_def sum_sq_dev_def)
  then have acc: "\<bar>sample_stdev [7 / 10, 7 / 10] - sample_stdev [7 / 10, 7 / 10]\<bar>
       < \<bar>sample_stdev [7 / 10, 7 / 10] - 1 / 10\<bar>"
    by simp
  from connections_by_sample_stdev [OF twin_wallets_eval h] acc z
  have "potential_connections (insights
         (comparison_result decimal_round 2 [twin_entry, twin_entry] (7 / 10) (1 / 2)
            (7 / 10) (1 / 2) 0))
     = ''Manual review recommended''"
    by simp
  moreover have "set [7 / 10, 7 / 10 :: real] = {hd [7 / 10, 7 / 10]}"
    by simp
  ultimately show ?thesis using twin_wallets_eval h z acc by blast
qed

text \<open>
  C8. A comparison over fewer than two addresses produces no comparison: the tool
  \<open>compare_addresses\<close> returns the error dictionary "At least 2 addresses required for
  comparison" when the \<open>addresses\<close> entry (an empty list when missing) has length below 2;
  the live tool \<open>compare_sei_addresses\<close> returns the same error dictionary for fewer than
  two addresses, and the error dictionary "Could not analyze enough addresses for
  comparison" when fewer than two of the analyses succeed.
\<close>

theorem insufficient_input:
  "(py_get addressData ''addresses'' (PList []) = Inr addresses
      \<and> py_len addresses = Inr n \<and> n < 2 \<longrightarrow>
      compare_addresses pf rnd stdev now addressData
      = Inr (ErrorDict ''At least 2 addresses required for comparison''))
   \<and> (length addrs < 2 \<longrightarrow>
      compare_sei_addresses rnd stdev net now addrs
      = LiveErrorDict ''At least 2 addresses required for comparison'')
   \<and> (2 \<le> length addrs
      \<and> length (successful (map (analyze_wallet_live rnd net now) addrs)) < 2 \<longrightarrow>
      compare_sei_addresses rnd stdev net now addrs
      = LiveErrorDict ''Could not analyze enough addresses for comparison'')"
  by (simp add: compare_addresses_def compare_sei_addresses_def Let_def)

theorem insufficient_input_witness:
  "py_get (PDict [(''addresses'', PList [scenario_wallet])]) ''addresses'' (PList [])
     = Inr (PList [scenario_wallet])
   \<and> py_len (PList [scenario_wallet]) = Inr 1 \<and> (1 :: nat) < 2
   \<and> compare_addresses reject_all decimal_round sample_stdev ''t'' (PDict [(''addresses'', PList [scenario_wallet])])
     = Inr (ErrorDict ''At least 2 addresses required for comparison'')
   \<and> length [''sei1a''] < 2
   \<and> compare_sei_addresses decimal_round sample_stdev offline_network ''t'' [''sei1a'']
     = LiveErrorDict ''At least 2 addresses required for comparison''
   \<and> 2 \<le> length [''sei1a'', ''sei1b'']
   \<and> length (successful (map (analyze_wallet_live decimal_round offline_network ''t'')
        [''sei1a'', ''sei1b''])) < 2
   \<and> compare_sei_addresses decimal_round sample_stdev offline_network ''t'' [''sei1a'', ''sei1b'']
     = LiveErrorDict ''Could not analyze enough addresses for comparison''"
proof -
  have a: "py_get (PDict [(''addresses'', PList [scenario_wallet])]) ''addresses'' (PList [])
     = Inr (PList [scenario_wallet])
     \<and> py_len (PList [scenario_wallet]) = Inr 1 \<and> (1 :: nat) < 2"
    by simp
  have b: "length [''sei1a''] < 2" by simp
  have c: "2 \<le> length [''sei1a'', ''sei1b'']
      \<and> length (successful (map (analyze_wallet_live decimal_round offline_network ''t'')
           [''sei1a'', ''sei1b''])) < 2"
    by (simp add: analyze_wallet_live_def offline_network_def)
  from insufficient_input [where addressData = "PDict [(''addresses'', PList [scenario_wallet])]"
      and addresses = "PList [scenario_wallet]" and n = 1 and pf = reject_all
      and rnd = decimal_round and stdev = sample_stdev and now = "''t''"
      and addrs = "[''sei1a'']" and net = offline_network] a b
    insufficient_input [where addressData = "PDict []" and addresses = "PList []" and n = 0
      and pf = reject_all and rnd = decimal_round and stdev = sample_stdev and now = "''t''"
      and addrs = "[''sei1a'', ''sei1b'']" and net = offline_network] c
  show ?thesis by simp
qed

text \<open>
  C9, as specified: a request whose wallet data has a missing or malformed address fails with
  an invalid-input error. The tool \<open>analyze_wallet\<close> analyses a wallet that has no address
  (reporting the address \<^verbatim>\<open>unknown\<close>) and a wallet whose address is the number 42, and
  the HTTP endpoint answers with the analysis for the address \<^verbatim>\<open>not an address\<close>.
\<close>

theorem address_counterexample:
  "analyze_wallet reject_all decimal_round ''t'' (PDict [(''balance'', PNum 5000000)])
     = Inr (wallet_result decimal_round ''t'' (PStr ''unknown'') 5000000 0 (7 / 10) (1 / 2) (1 / 10)
              NoActivity no_staking (1 / 2000) {} False)
   \<and> analyze_wallet reject_all decimal_round ''t''
       (PDict [(''address'', PNum 42), (''balance'', PNum 5000000)])
     = Inr (wallet_result decimal_round ''t'' (PNum 42) 5000000 0 (7 / 10) (1 / 2) (1 / 10)
              NoActivity no_staking (1 / 2000) {} False)
   \<and> analyze_wallet_endpoint reject_all decimal_round ''t''
        (PDict [(''address'', PStr ''not an address''), (''balance'', PNum 5000000)])
     = JSONResponse (wallet_result decimal_round ''t'' (PStr ''not an address'') 5000000 0 (7 / 10)
              (1 / 2) (1 / 10) NoActivity no_staking (1 / 2000) {} False)"
  by (simp add: eval_defs no_staking_def analyze_wallet_endpoint_def
      analyze_wallet_endpoint_body_def lift_exn_def)

text \<open>
  C9, as implemented: the tool \<open>analyze_wallet\<close> never rejects a request for its address: a
  missing address is analysed as the address \<^verbatim>\<open>unknown\<close>, and any address value is copied
  into the result while everything else (the error raised, or every other field) is the
  same for all address values. Only the HTTP endpoint \<^verbatim>\<open>/analyze/wallet\<close> rejects a
  request, with an HTTP error, when the address is missing or empty.
\<close>

theorem address_not_validated:
  "(map_of kvs ''address'' = None \<longrightarrow>
      analyze_wallet pf rnd now (PDict kvs)
      = analyze_wallet pf rnd now (PDict ((''address'', PStr ''unknown'') # kvs)))
   \<and> analyze_wallet pf rnd now (PDict ((''address'', a) # kvs))
      = map_sum id (\<lambda>r. r\<lparr>address := a\<rparr>)
          (analyze_wallet pf rnd now (PDict ((''address'', a') # kvs)))
   \<and> (\<not> py_truthy (case map_of kvs ''address'' of None \<Rightarrow> PNone | Some v \<Rightarrow> v) \<longrightarrow>
      analyze_wallet_endpoint pf rnd now (PDict kvs) = HTTPError 500)"
  using analyze_wallet_address [of pf rnd now a kvs a']
    analyze_wallet_missing_address [of kvs pf rnd now]
  by (simp add: analyze_wallet_endpoint_def analyze_wallet_endpoint_body_def lift_exn_def)

theorem address_not_validated_witness:
  "map_of [(''balance'', PNum 5000000)] ''address'' = None
   \<and> analyze_wallet reject_all decimal_round ''t'' (PDict [(''balance'', PNum 5000000)])
      = analyze_wallet reject_all decimal_round ''t''
          (PDict [(''address'', PStr ''unknown''), (''balance'', PNum 5000000)])
   \<and> \<not> py_truthy (case map_of [(''address'', PStr []), (''balance'', PNum 5000000)]
                      ''address'' of None \<Rightarrow> PNone | Some v \<Rightarrow> v)
   \<and> analyze_wallet_endpoint reject_all decimal_round ''t''
        (PDict [(''address'', PStr []), (''balance'', PNum 5000000)]) = HTTPError 500"
  using address_not_validated [where kvs = "[(''balance'', PNum 5000000)]"
      and pf = reject_all and rnd = decimal_round and now = "''t''" and a = PNone
      and a' = PNone]
    address_not_validated [where kvs = "[(''address'', PStr []), (''balance'', PNum 5000000)]"
      and pf = reject_all and rnd = decimal_round and now = "''t''" and a = PNone
      and a' = PNone]
  by simp

text \<open>
  C10. The kind and the direction of a transaction are both read from its \<open>type\<close> entry:
  for every transaction list on which the chain metrics and the pattern analysis succeed,
  the transactions counted into \<open>staking_amount\<close> and \<open>validator_interactions\<close> (type
  containing "staking", case-insensitively) and the transactions counted into the incoming
  and outgoing ratios (type equal to "incoming" or "outgoing") are disjoint; both tests
  depend on nothing but the \<open>type\<close> entry of the transaction.
\<close>

theorem staking_and_direction_disjoint:
  assumes "get_sei_specific_metrics pf a (PList txs) = Inr sm"
    and "analyze_transaction_patterns pf (PList txs) = Inr (Patterns ps)"
  shows "(\<exists>staking_txs amounts incoming_txs outgoing_txs.
           filterM is_staking_tx txs = Inr staking_txs
         \<and> mapM (amount_of pf) staking_txs = Inr amounts
         \<and> staking_amount sm = sum_list amounts
         \<and> validator_interactions sm = length staking_txs
         \<and> filterM (type_is ''incoming'') txs = Inr incoming_txs
         \<and> filterM (type_is ''outgoing'') txs = Inr outgoing_txs
         \<and> incoming_ratio ps = real (length incoming_txs) / real (max (length txs) 1)
         \<and> outgoing_ratio ps = real (length outgoing_txs) / real (max (length txs) 1)
         \<and> set staking_txs \<inter> (set incoming_txs \<union> set outgoing_txs) = {})
    \<and> (map_of kvs ''type'' = map_of kvs' ''type'' \<longrightarrow>
           is_staking_tx (PDict kvs) = is_staking_tx (PDict kvs')
         \<and> type_is direction (PDict kvs) = type_is direction (PDict kvs'))"
proof -
  have type_only: "map_of kvs ''type'' = map_of kvs' ''type'' \<longrightarrow>
           is_staking_tx (PDict kvs) = is_staking_tx (PDict kvs')
         \<and> type_is direction (PDict kvs) = type_is direction (PDict kvs')"
    by (simp add: is_staking_tx_def type_is_def)
  from assms(1) obtain staking_txs amounts where
    s: "filterM is_staking_tx txs = Inr staking_txs"
      "mapM (amount_of pf) staking_txs = Inr amounts"
      "staking_amount sm = sum_list amounts"
      "validator_interactions sm = length staking_txs"
    by (rule sei_metrics_Inr)
  from assms(2) obtain incoming_txs outgoing_txs where
    d: "filterM (type_is ''incoming'') txs = Inr incoming_txs"
      "filterM (type_is ''outgoing'') txs = Inr outgoing_txs"
      "incoming_ratio ps = real (length incoming_txs) / real (max (length txs) 1)"
      "outgoing_ratio ps = real (length outgoing_txs) / real (max (length txs) 1)"
    by (rule patterns_Inr)
  have "x \<notin> set incoming_txs \<union> set outgoing_txs" if "x \<in> set staking_txs" for x
  proof -
    from that have "is_staking_tx x = Inr True"
      unfolding filterM_Inr [OF s(1)] by simp
    then have "type_is ''incoming'' x = Inr False \<and> type_is ''outgoing'' x = Inr False"
      by (rule staking_not_direction)
    then show ?thesis
      unfolding filterM_Inr [OF d(1)] filterM_Inr [OF d(2)] by simp
  qed
  then have "set staking_txs \<inter> (set incoming_txs \<union> set outgoing_txs) = {}"
    by blast
  with s d have "\<exists>staking_txs amounts incoming_txs outgoing_txs.
           filterM is_staking_tx txs = Inr staking_txs
         \<and> mapM (amount_of pf) staking_txs = Inr amounts
         \<and> staking_amount sm = sum_list amounts
         \<and> validator_interactions sm = length staking_txs
         \<and> filterM (type_is ''incoming'') txs = Inr incoming_txs
         \<and> filterM (type_is ''outgoing'') txs = Inr outgoing_txs
         \<and> incoming_ratio ps = real (length incoming_txs) / real (max (length txs) 1)
         \<and> outgoing_ratio ps = real (length outgoing_txs) / real (max (length txs) 1)
         \<and> set staking_txs \<inter> (set incoming_txs \<union> set outgoing_txs) = {}"
    by blast
  then show ?thesis using type_only by (rule conjI)
qed

theorem staking_and_direction_disjoint_witness:
  "get_sei_specific_metrics reject_all PNone (PList mixed_txs) = Inr mixed_metrics
   \<and> analyze_transaction_patterns reject_all (PList mixed_txs) = Inr (Patterns mixed_stats)
   \<and> filterM is_staking_tx mixed_txs
       = Inr [PDict [(''amount'', PNum 5), (''type'', PStr ''Staking'')]]
   \<and> filterM (type_is ''incoming'') mixed_txs
       = Inr [PDict [(''amount'', PNum 1), (''type'', PStr ''incoming'')]]
   \<and> filterM (type_is ''outgoing'') mixed_txs
       = Inr [PDict [(''amount'', PNum 2), (''type'', PStr ''outgoing'')]]
   \<and> validator_interactions mixed_metrics = 1 \<and> staking_amount mixed_metrics = 5
   \<and> incoming_ratio mixed_stats = 1 / 3 \<and> outgoing_ratio mixed_stats = 1 / 3
   \<and> map_of [(''amount'', PNum 5), (''type'', PStr ''Staking'')] ''type''
       = map_of [(''type'', PStr ''Staking'')] ''type''
   \<and> is_staking_tx (PDict [(''amount'', PNum 5), (''type'', PStr ''Staking'')])
       = is_staking_tx (PDict [(''type'', PStr ''Staking'')])"
  using mixed_eval
    staking_and_direction_disjoint [OF mixed_eval,
      of "[(''amount'', PNum 5), (''type'', PStr ''Staking'')]"
         "[(''type'', PStr ''Staking'')]" "''incoming''"]
  by (simp add: mixed_txs_def mixed_metrics_def mixed_stats_def is_staking_tx_def type_is_def
      lower_char_def)

end
